theory Spec2Isabelle
  imports Complex_Main
begin

section \<open>Conventions of the embedding\<close>

text \<open>
  The engine is TypeScript. A finite JavaScript number is a \<^typ>\<open>real\<close>, and a value that
  is not a finite number (\<open>NaN\<close> or an infinity) is \<open>None\<close>. The pricing model, the swap
  quote, \<open>addLiquidity\<close> and the risk analyzer are written with exact arithmetic
  (\<open>js_div\<close>, \<open>js_sqrt\<close>). The round trip through the liquidity engine and the slippage
  estimator are written with every operation rounded to binary64 (\<open>f64\<close>), because what
  is stated about them depends on the rounding.
  \<open>Math.random()\<close> is an explicit argument of the function that calls it.
  An object literal is the association list of its own entries; what a read finds for a
  key that is not an own key is written out with the tables of the risk analyzer.
\<close>

text \<open>
  An \<open>async\<close> function returns a promise that resolves (\<open>Inr\<close>) or rejects (\<open>Inl\<close>).
  The error kinds are the ones the design names. The functions of the pricing model have
  no \<open>throw\<close>. The \<open>try\<close> blocks of the quote and liquidity functions hold no operation
  that raises on a well-typed argument, so their \<open>catch\<close> branch, which rethrows, is never
  taken. Each function is therefore written with \<open>Inr\<close> only.
\<close>

datatype error =
    PoolNotFound
  | TokenNotInPool
  | InvalidAmount
  | NoRouteFound
  | InsufficientLiquidity

text \<open>\<open>x || d\<close> on an optional number: \<open>undefined\<close> and \<open>0\<close> are falsy.\<close>

fun or_default :: "real option \<Rightarrow> real \<Rightarrow> real" where
  "or_default None d = d"
| "or_default (Some v) d = (if v = 0 then d else v)"

text \<open>\<open>a / b\<close>: a division by zero gives an infinity or \<open>NaN\<close>.\<close>

definition js_div :: "real \<Rightarrow> real \<Rightarrow> real option" where
  "js_div a b = (if b = 0 then None else Some (a / b))"

text \<open>\<open>Math.sqrt(x)\<close>: \<open>NaN\<close> below zero.\<close>

definition js_sqrt :: "real \<Rightarrow> real option" where
  "js_sqrt x = (if x < 0 then None else Some (sqrt x))"

section \<open>Binary64 arithmetic\<close>

text \<open>
  \<open>round_even\<close> rounds to the nearest integer, a tie to the even one. \<open>ulp64 x\<close> is the
  spacing of the binary64 numbers around \<open>x\<close>: \<open>2^(e - 52)\<close> where \<open>2^e \<le> |x| < 2^(e + 1)\<close>,
  and \<open>2^-1074\<close> below \<open>2^-1022\<close>, where the numbers are subnormal. \<open>f64 x\<close> is \<open>x\<close> rounded
  to the nearest binary64 number, a tie to the one with the even significand; a rounded
  magnitude of \<open>2^1024\<close> or more is an infinity. A decimal literal of the source denotes
  the binary64 number nearest to it: \<open>0.95\<close> is \<open>f64 0.95\<close>. The literals 0, 1.5, 2, 3 and
  10000 are binary64 numbers themselves.
\<close>

definition round_even :: "real \<Rightarrow> int" where
  "round_even x =
     (let f = \<lfloor>x\<rfloor>; d = x - of_int f
      in if d < 1 / 2 then f else if 1 / 2 < d then f + 1 else if even f then f else f + 1)"

definition ulp64 :: "real \<Rightarrow> real" where
  "ulp64 x =
     (if \<bar>x\<bar> < 2 powr (- 1022) then 2 powr (- 1074)
      else 2 powr (of_int \<lfloor>log 2 \<bar>x\<bar>\<rfloor> - 52))"

definition f64 :: "real \<Rightarrow> real option" where
  "f64 x =
     (let r = of_int (round_even (x / ulp64 x)) * ulp64 x
      in if 2 powr 1024 \<le> \<bar>r\<bar> then None else Some r)"

text \<open>
  The operations \<open>+\<close>, \<open>*\<close>, \<open>/\<close> and \<open>Math.sqrt\<close> on binary64 numbers: the exact result,
  rounded. An operand that is not finite gives a result that is not finite (the divisor
  of \<open>fl_div\<close> is always a finite count or constant of the source).
\<close>

definition fl_add :: "real option \<Rightarrow> real option \<Rightarrow> real option" where
  "fl_add a b = (case (a, b) of (Some x, Some y) \<Rightarrow> f64 (x + y) | _ \<Rightarrow> None)"

definition fl_mul :: "real option \<Rightarrow> real option \<Rightarrow> real option" where
  "fl_mul a b = (case (a, b) of (Some x, Some y) \<Rightarrow> f64 (x * y) | _ \<Rightarrow> None)"

definition fl_div :: "real option \<Rightarrow> real \<Rightarrow> real option" where
  "fl_div a n = (case a of Some x \<Rightarrow> if n = 0 then None else f64 (x / n) | None \<Rightarrow> None)"

definition fl_sqrt :: "real option \<Rightarrow> real option" where
  "fl_sqrt a = (case a of Some x \<Rightarrow> if x < 0 then None else f64 (sqrt x) | None \<Rightarrow> None)"

section \<open>Pool registry and pricing model\<close>

definition PRODUCTION_POOLS :: "(string \<times> string) list" where
  "PRODUCTION_POOLS =
     [(''susd'', ''susdPoolAddress123456789''),
      (''tripool'', ''tripoolAddress123456789''),
      (''usds'', ''usdsPoolAddress123456789'')]"

record Fees =
  swapFee :: real
  adminFee :: real

record PoolInfo =
  address :: string
  name :: string
  tokens :: "string list"
  decimals :: "nat list"
  fees :: Fees
  tvl :: real

record PriceImpactResult =
  priceImpact :: real
  expectedOutput :: real
  fee :: real

definition poolData :: "(string \<times> PoolInfo) list" where
  "poolData =
     [(''susd'',
        \<lparr>address = ''susdPoolAddress123456789'', name = ''Stable USD Pool'',
         tokens = [''USDC'', ''USDT'', ''PYUSD''], decimals = [6, 6, 6],
         fees = \<lparr>swapFee = 0.0004, adminFee = 0.0001\<rparr>, tvl = 100000000\<rparr>),
      (''tripool'',
        \<lparr>address = ''tripoolAddress123456789'', name = ''Tri-Pool'',
         tokens = [''USDC'', ''USDT'', ''DAI''], decimals = [6, 6, 18],
         fees = \<lparr>swapFee = 0.0004, adminFee = 0.0001\<rparr>, tvl = 50000000\<rparr>),
      (''usds'',
        \<lparr>address = ''usdsPoolAddress123456789'', name = ''USD* Pool'',
         tokens = [''USDC'', ''USDT'', ''USD*''], decimals = [6, 6, 6],
         fees = \<lparr>swapFee = 0.0003, adminFee = 0.0001\<rparr>, tvl = 75000000\<rparr>)]"

text \<open>
  \<open>Object.entries(PRODUCTION_POOLS).find(([name, addr]) => addr === poolAddress || name === poolAddress)\<close>:
  the name of the first pool whose name or address is the argument.
\<close>

definition poolKey :: "string \<Rightarrow> (string \<times> string) option" where
  "poolKey poolAddress =
     find (\<lambda>(nm, addr). addr = poolAddress \<or> nm = poolAddress) PRODUCTION_POOLS"

definition getPoolInfo :: "string \<Rightarrow> PoolInfo" where
  "getPoolInfo poolAddress =
     (let poolName = (case poolKey poolAddress of Some k \<Rightarrow> fst k | None \<Rightarrow> ''unknown'')
      in case map_of poolData poolName of
           Some info \<Rightarrow> info
         | None \<Rightarrow>
             \<lparr>address = poolAddress, name = ''Unknown Pool'',
              tokens = [''Token1'', ''Token2''], decimals = [6, 6],
              fees = \<lparr>swapFee = 0.0004, adminFee = 0.0001\<rparr>, tvl = 10000000\<rparr>)"

text \<open>
  The token indices are parameters of the source function and are only logged.
  The returned \<open>priceImpact\<close> is the capped fraction times 100.
\<close>

definition calculatePriceImpact ::
  "string \<Rightarrow> int \<Rightarrow> int \<Rightarrow> real \<Rightarrow> error + PriceImpactResult" where
  "calculatePriceImpact poolAddress tokenInIndex tokenOutIndex amountIn =
     (let poolInfo = getPoolInfo poolAddress;
          impactFactor = amountIn / (tvl poolInfo * 0.01);
          priceImpact' = min (impactFactor * 0.5) 0.05;
          fee' = amountIn * swapFee (fees poolInfo);
          expectedOutput' = amountIn * (1 - priceImpact' - swapFee (fees poolInfo))
      in Inr \<lparr>priceImpact = priceImpact' * 100,
               expectedOutput = expectedOutput',
               fee = fee'\<rparr>)"

text \<open>
  The object that \<open>findOptimalRoute\<close> returns. Its fields \<open>expectedOutput\<close> and
  \<open>priceImpact\<close> carry the prefix \<open>route\<close> here, since \<open>PriceImpactResult\<close> has fields of
  the same names.
\<close>

record RouteResult =
  route :: "string list"
  pools :: "string list"
  routeExpectedOutput :: real
  routePriceImpact :: real

text \<open>
  The \<open>for\<close> loop over the pool names with its \<open>break\<close>: the first pool, in registry
  order, whose token list has both tokens; the empty string when there is none.
\<close>

fun findDirectPool :: "string list \<Rightarrow> string \<Rightarrow> string \<Rightarrow> string" where
  "findDirectPool [] fromToken toToken = ''''"
| "findDirectPool (poolName # rest) fromToken toToken =
     (if fromToken \<in> set (tokens (getPoolInfo poolName))
         \<and> toToken \<in> set (tokens (getPoolInfo poolName))
      then poolName
      else findDirectPool rest fromToken toToken)"

definition findOptimalRoute :: "string \<Rightarrow> string \<Rightarrow> real \<Rightarrow> error + RouteResult" where
  "findOptimalRoute fromToken toToken amount =
     (let direct = findDirectPool (map fst PRODUCTION_POOLS) fromToken toToken;
          (route', selectedPool) =
             (if direct = '''' then ([fromToken, ''USDC'', toToken], ''tripool'')
              else ([fromToken, toToken], direct))
      in case calculatePriceImpact selectedPool 0 1 amount of
           Inl e \<Rightarrow> Inl e
         | Inr r \<Rightarrow>
             Inr \<lparr>route = route', pools = [selectedPool],
                  routeExpectedOutput = expectedOutput r,
                  routePriceImpact = priceImpact r\<rparr>)"

text \<open>
  What it means for a route to exist in the registry: a pool that holds both tokens, or
  one pool that holds the input token with USDC and one that holds USDC with the output
  token.
\<close>

definition poolHasPair :: "string \<Rightarrow> string \<Rightarrow> string \<Rightarrow> bool" where
  "poolHasPair poolName a b =
     (a \<in> set (tokens (getPoolInfo poolName)) \<and> b \<in> set (tokens (getPoolInfo poolName)))"

definition directRouteExists :: "string \<Rightarrow> string \<Rightarrow> bool" where
  "directRouteExists a b = list_ex (\<lambda>p. poolHasPair p a b) (map fst PRODUCTION_POOLS)"

definition usdcRouteExists :: "string \<Rightarrow> string \<Rightarrow> bool" where
  "usdcRouteExists a b =
     (list_ex (\<lambda>p. poolHasPair p a ''USDC'') (map fst PRODUCTION_POOLS)
      \<and> list_ex (\<lambda>p. poolHasPair p ''USDC'' b) (map fst PRODUCTION_POOLS))"

section \<open>Swap quotes\<close>

text \<open>
  The \<open>in\<close> and \<open>out\<close> of a quote request are a token index or a token symbol
  (\<open>number | string\<close>). An index is a natural number below \<open>10\<^sup>2\<^sup>1\<close>, which \<open>toString\<close>
  prints in decimal (from \<open>10\<^sup>2\<^sup>1\<close> on JavaScript prints a number with an exponent; the
  route of a quote is only ever compared with the route of another quote of the same
  request).
\<close>

datatype token_ref = Index nat | Symbol string

fun string_of_nat :: "nat \<Rightarrow> string" where
  "string_of_nat n =
     (if n < 10 then [char_of (48 + n)]
      else string_of_nat (n div 10) @ [char_of (48 + n mod 10)])"

declare string_of_nat.simps [simp del]

fun toString :: "token_ref \<Rightarrow> string" where
  "toString (Index n) = string_of_nat n"
| "toString (Symbol s) = s"

text \<open>
  The fields of \<open>QuoteParams\<close> and \<open>QuoteResult\<close>; a field whose name another record of
  this theory already has carries the prefix \<open>quote\<close>.
\<close>

record QuoteParams =
  quotePool :: string
  quoteIn :: token_ref
  quoteOut :: token_ref
  exactAmountIn :: real
  slippageTolerance :: "real option"

record QuoteResult =
  expectedAmountOut :: real
  minAmountOut :: real
  quotePriceImpact :: real
  quoteFee :: real
  quoteRoute :: "string list"

text \<open>
  \<open>getSwapQuote\<close> calls \<open>Math.random()\<close> once; \<open>rnd\<close> is the number it returns, in
  \<open>[0, 1)\<close>.
\<close>

definition getSwapQuote :: "QuoteParams \<Rightarrow> real \<Rightarrow> error + QuoteResult" where
  "getSwapQuote params rnd =
     (let priceImpact' = rnd * 0.01 * 100;
          fee' = exactAmountIn params * 0.003;
          expectedAmountOut' = exactAmountIn params * (1 - (priceImpact' / 100) - 0.003);
          slippageTolerance' = or_default (slippageTolerance params) 0.005;
          minAmountOut' = expectedAmountOut' * (1 - slippageTolerance')
      in Inr \<lparr>expectedAmountOut = expectedAmountOut',
               minAmountOut = minAmountOut',
               quotePriceImpact = priceImpact',
               quoteFee = fee',
               quoteRoute = [toString (quoteIn params), toString (quoteOut params)]\<rparr>)"

section \<open>Liquidity engine\<close>

record AddLiquidityParams =
  addPool :: string
  maxAmountsIn :: "real list"
  minLpTokenMintAmount :: real

record RemoveLiquidityParams =
  removePool :: string
  lpTokenRedeemAmount :: real



text \<open>
  The same function and \<open>removeLiquidity\<close> in binary64. A field of the result holds a
  number that may not be finite, so it has one more \<open>option\<close> than in \<open>LiquidityResult\<close>,
  and the names of the fields end in \<open>64\<close>. The amounts of a request are finite numbers.
\<close>

record LiquidityResult64 =
  txHash64 :: string
  lpTokenAmount64 :: "real option option"
  amountsIn64 :: "real option list option"
  amountsOut64 :: "real option list option"

definition addLiquidity64 :: "AddLiquidityParams \<Rightarrow> string \<Rightarrow> error + LiquidityResult64" where
  "addLiquidity64 params hash =
     (let totalAmountIn =
            foldl (\<lambda>sum amount. fl_add sum (Some amount)) (Some 0) (maxAmountsIn params);
          lpTokenAmount' = fl_mul totalAmountIn (f64 0.95);
          amountsIn' = map (\<lambda>amount. fl_mul (Some amount) (f64 0.99)) (maxAmountsIn params)
      in Inr \<lparr>txHash64 = hash, lpTokenAmount64 = Some lpTokenAmount',
               amountsIn64 = Some amountsIn', amountsOut64 = None\<rparr>)"

definition removeLiquidity64 ::
  "RemoveLiquidityParams \<Rightarrow> string \<Rightarrow> error + LiquidityResult64" where
  "removeLiquidity64 params hash =
     (let poolName = map_option fst (poolKey (removePool params));
          tokenCount = (if poolName = Some ''tripool'' then 3 else 2 :: nat);
          lpTokenValue = fl_mul (Some (lpTokenRedeemAmount params)) (f64 1.02);
          amountPerToken = fl_div lpTokenValue (real tokenCount);
          amountsOut' = replicate tokenCount amountPerToken
      in Inr \<lparr>txHash64 = hash, lpTokenAmount64 = None,
               amountsIn64 = None, amountsOut64 = Some amountsOut'\<rparr>)"

section \<open>Risk analyzer and slippage estimator\<close>

text \<open>
  The tables of \<open>ExposureCalculator\<close> are object literals, which inherit from
  \<open>Object.prototype\<close>. A read \<open>table[key]\<close> finds an own key first; for a key that is not
  an own key but is the name of a member of \<open>Object.prototype\<close> it yields that member, a
  function (for \<open>__proto__\<close>, the prototype object): a truthy value that is not a number.
  Every other key reads \<open>undefined\<close>.
\<close>

definition objectPrototypeKeys :: "string list" where
  "objectPrototypeKeys =
     [''constructor'', ''__defineGetter__'', ''__defineSetter__'', ''hasOwnProperty'',
      ''__lookupGetter__'', ''__lookupSetter__'', ''isPrototypeOf'', ''propertyIsEnumerable'',
      ''toString'', ''valueOf'', ''__proto__'', ''toLocaleString'']"

definition ordinaryKey :: "string \<Rightarrow> bool" where
  "ordinaryKey k = (k \<notin> set objectPrototypeKeys)"

text \<open>
  \<open>table[key] || d\<close> on a table of numbers. \<open>None\<close> is the inherited member: it is truthy,
  so it is what the expression yields, and every arithmetic operation it enters gives
  \<open>NaN\<close>.
\<close>

definition lookupOr :: "(string \<times> real) list \<Rightarrow> string \<Rightarrow> real \<Rightarrow> real option" where
  "lookupOr table k d =
     (case map_of table k of
        Some v \<Rightarrow> Some (if v = 0 then d else v)
      | None \<Rightarrow> if ordinaryKey k then Some d else None)"

record PortfolioAsset =
  symbol :: string
  balance :: real
  usdValue :: real

record RiskMetrics =
  totalValue :: real
  volatility :: "real option"
  sharpeRatio :: "real option"
  maxDrawdown :: "real option"
  valueAtRisk :: "real option"
  riskExposure :: "(string \<times> real option) list"

definition assetVolatility :: "(string \<times> real) list" where
  "assetVolatility =
     [(''USDC'', 0.01), (''USDT'', 0.01), (''yUSDC'', 0.01),
      (''xGOLD'', 0.15), (''xKES'', 0.08), (''xEUR'', 0.06)]"

definition correlationMatrix :: "(string \<times> (string \<times> real) list) list" where
  "correlationMatrix =
     [(''USDC'', [(''USDC'', 1.0), (''USDT'', 0.95), (''yUSDC'', 0.99), (''xGOLD'', 0.1), (''xKES'', 0.2), (''xEUR'', 0.3)]),
      (''USDT'', [(''USDC'', 0.95), (''USDT'', 1.0), (''yUSDC'', 0.95), (''xGOLD'', 0.1), (''xKES'', 0.2), (''xEUR'', 0.3)]),
      (''yUSDC'', [(''USDC'', 0.99), (''USDT'', 0.95), (''yUSDC'', 1.0), (''xGOLD'', 0.1), (''xKES'', 0.2), (''xEUR'', 0.3)]),
      (''xGOLD'', [(''USDC'', 0.1), (''USDT'', 0.1), (''yUSDC'', 0.1), (''xGOLD'', 1.0), (''xKES'', 0.4), (''xEUR'', 0.5)]),
      (''xKES'', [(''USDC'', 0.2), (''USDT'', 0.2), (''yUSDC'', 0.2), (''xGOLD'', 0.4), (''xKES'', 1.0), (''xEUR'', 0.6)]),
      (''xEUR'', [(''USDC'', 0.3), (''USDT'', 0.3), (''yUSDC'', 0.3), (''xGOLD'', 0.5), (''xKES'', 0.6), (''xEUR'', 1.0)])]"

definition expectedReturns :: "(string \<times> real) list" where
  "expectedReturns =
     [(''USDC'', 0.01), (''USDT'', 0.01), (''yUSDC'', 0.045),
      (''xGOLD'', 0.07), (''xKES'', 0.06), (''xEUR'', 0.03)]"

text \<open>\<open>this.assetVolatility[s] || 0.05\<close>, which the source writes at each use.\<close>

definition volatilityOf :: "string \<Rightarrow> real option" where
  "volatilityOf s = lookupOr assetVolatility s 0.05"

text \<open>
  \<open>this.correlationMatrix[a]?.[b]\<close> and \<open>getCorrelation\<close>, for two ordinary keys (the rows
  of the matrix have only ordinary keys). Below, a correlation is only ever multiplied
  with the volatility lookups of its two keys, and that product is \<open>NaN\<close> as soon as one
  of the keys is the name of an inherited member, whatever the correlation is; so
  \<open>getCorrelation\<close> is evaluated on ordinary keys only.
\<close>

definition matrixEntry :: "string \<Rightarrow> string \<Rightarrow> real option" where
  "matrixEntry a b =
     (case map_of correlationMatrix a of None \<Rightarrow> None | Some row \<Rightarrow> map_of row b)"

definition getCorrelation :: "string \<Rightarrow> string \<Rightarrow> real" where
  "getCorrelation assetA assetB =
     or_default (matrixEntry assetA assetB) (or_default (matrixEntry assetB assetA) 0.5)"

text \<open>
  \<open>obj[key] = v\<close> on a \<open>Record<string, _>\<close>: an existing key keeps its place and takes the
  new value, a new key goes to the end. The list is the object's own entries in insertion
  order (JavaScript enumerates keys that are array indices first; the sums below do not
  depend on the order).
\<close>

fun setKey :: "string \<Rightarrow> 'v \<Rightarrow> (string \<times> 'v) list \<Rightarrow> (string \<times> 'v) list" where
  "setKey k v [] = [(k, v)]"
| "setKey k v (p # ps) = (if fst p = k then (k, v) # ps else p # setKey k v ps)"

text \<open>
  The \<open>forEach\<close> of \<open>calculateRiskMetrics\<close> that fills \<open>weights\<close>. The assignment
  \<open>weights['__proto__'] = w\<close> calls the setter of \<open>Object.prototype\<close>, which ignores a
  number: it creates no own key. Every other key, also the name of an inherited method,
  becomes an own key.
\<close>

definition portfolioWeights :: "PortfolioAsset list \<Rightarrow> real \<Rightarrow> (string \<times> real) list" where
  "portfolioWeights portfolio totalValue' =
     foldl (\<lambda>weights asset.
              if symbol asset = ''__proto__'' then weights
              else setKey (symbol asset) (usdValue asset / totalValue') weights)
       [] portfolio"

text \<open>
  The two loops of \<open>calculatePortfolioVolatility\<close>, with \<open>variance\<close> as the accumulator
  (\<open>None\<close> once it is \<open>NaN\<close>). The outer loop runs over the own keys of \<open>weights\<close> and reads
  \<open>weights[assetI]\<close>; here it runs over the entries. The inner loop runs over the entries
  after the current one.
\<close>

fun covarianceLoop ::
  "string \<Rightarrow> real \<Rightarrow> real option \<Rightarrow> (string \<times> real) list \<Rightarrow> real option \<Rightarrow> real option" where
  "covarianceLoop assetI weightI volatilityI [] variance = variance"
| "covarianceLoop assetI weightI volatilityI ((assetJ, weightJ) # rest) variance =
     covarianceLoop assetI weightI volatilityI rest
       (case (variance, volatilityI, volatilityOf assetJ) of
          (Some var, Some volI, Some volJ) \<Rightarrow>
            Some (var + 2 * weightI * weightJ * volI * volJ * getCorrelation assetI assetJ)
        | _ \<Rightarrow> None)"

fun varianceLoop :: "(string \<times> real) list \<Rightarrow> real option \<Rightarrow> real option" where
  "varianceLoop [] variance = variance"
| "varianceLoop ((assetI, weightI) # rest) variance =
     varianceLoop rest
       (covarianceLoop assetI weightI (volatilityOf assetI) rest
          (case (variance, volatilityOf assetI) of
             (Some var, Some volI) \<Rightarrow> Some (var + weightI * weightI * volI * volI)
           | _ \<Rightarrow> None))"

definition calculatePortfolioVolatility :: "(string \<times> real) list \<Rightarrow> real option" where
  "calculatePortfolioVolatility weights = Option.bind (varianceLoop weights (Some 0)) js_sqrt"

definition calculateExpectedReturn :: "(string \<times> real) list \<Rightarrow> real option" where
  "calculateExpectedReturn weights =
     foldl (\<lambda>portfolioReturn (asset, weight).
              case (portfolioReturn, lookupOr expectedReturns asset 0.03) of
                (Some r, Some e) \<Rightarrow> Some (r + weight * e)
              | _ \<Rightarrow> None)
       (Some 0) weights"

text \<open>
  \<open>calculateRiskExposure\<close>. A weight that is not an own key of \<open>weights\<close> reads
  \<open>undefined\<close> or an inherited member and makes the contribution \<open>NaN\<close> (\<open>None\<close>). The
  inner \<open>forEach\<close> is \<open>correlationAdjust\<close>, with \<open>marginalContribution\<close> as the
  accumulator.
\<close>

fun correlationAdjust ::
  "string \<Rightarrow> (string \<times> real) list \<Rightarrow> PortfolioAsset list \<Rightarrow> real option \<Rightarrow> real option" where
  "correlationAdjust assetSymbol weights [] marginalContribution = marginalContribution"
| "correlationAdjust assetSymbol weights (otherAsset # rest) marginalContribution =
     correlationAdjust assetSymbol weights rest
       (if symbol otherAsset \<noteq> assetSymbol then
          (case (marginalContribution, map_of weights assetSymbol,
                 map_of weights (symbol otherAsset)) of
             (Some m, Some weight, Some otherWeight) \<Rightarrow>
               (case (volatilityOf assetSymbol, volatilityOf (symbol otherAsset)) of
                  (Some assetVol, Some otherVolatility) \<Rightarrow>
                    Some (m + weight * otherWeight
                                * getCorrelation assetSymbol (symbol otherAsset)
                                * assetVol * otherVolatility)
                | _ \<Rightarrow> None)
           | _ \<Rightarrow> None)
        else marginalContribution)"

definition assetExposure ::
  "PortfolioAsset list \<Rightarrow> (string \<times> real) list \<Rightarrow> real option \<Rightarrow> PortfolioAsset \<Rightarrow> real option" where
  "assetExposure portfolio weights portfolioVolatility asset =
     (let marginalContribution =
            correlationAdjust (symbol asset) weights portfolio
              (case (map_of weights (symbol asset), volatilityOf (symbol asset)) of
                 (Some weight, Some assetVol) \<Rightarrow> Some (weight * assetVol)
               | _ \<Rightarrow> None)
      in case (marginalContribution, portfolioVolatility) of
           (Some m, Some v) \<Rightarrow> map_option (\<lambda>q. q * 100) (js_div m v)
         | _ \<Rightarrow> None)"

definition calculateRiskExposure ::
  "PortfolioAsset list \<Rightarrow> (string \<times> real) list \<Rightarrow> real option \<Rightarrow> (string \<times> real option) list" where
  "calculateRiskExposure portfolio weights portfolioVolatility =
     foldl (\<lambda>riskExposure' asset.
              setKey (symbol asset) (assetExposure portfolio weights portfolioVolatility asset)
                riskExposure')
       [] portfolio"

definition getEmptyRiskMetrics :: RiskMetrics where
  "getEmptyRiskMetrics =
     \<lparr>totalValue = 0, volatility = Some 0, sharpeRatio = Some 0, maxDrawdown = Some 0,
      valueAtRisk = Some 0, riskExposure = []\<rparr>"

definition calculateRiskMetrics :: "PortfolioAsset list \<Rightarrow> RiskMetrics" where
  "calculateRiskMetrics portfolio =
     (let totalValue' = foldl (\<lambda>sum asset. sum + usdValue asset) 0 portfolio
      in if totalValue' = 0 then getEmptyRiskMetrics
         else
           (let weights = portfolioWeights portfolio totalValue';
                volatility' = calculatePortfolioVolatility weights;
                riskFreeRate = 0.02;
                expectedReturn = calculateExpectedReturn weights;
                sharpeRatio' =
                  (case (expectedReturn, volatility') of
                     (Some r, Some v) \<Rightarrow> js_div (r - riskFreeRate) v
                   | _ \<Rightarrow> None);
                zScore95 = 1.645;
                valueAtRisk' =
                  map_option (\<lambda>v. zScore95 * v * sqrt (1 / 252) * totalValue') volatility';
                maxDrawdown' = map_option (\<lambda>v. v * 2.5) volatility';
                riskExposure' = calculateRiskExposure portfolio weights volatility'
            in \<lparr>totalValue = totalValue', volatility = volatility',
                sharpeRatio = sharpeRatio', maxDrawdown = maxDrawdown',
                valueAtRisk = valueAtRisk', riskExposure = riskExposure'\<rparr>))"

text \<open>The sum of the percentages of a \<open>riskExposure\<close> map; \<open>None\<close> when one of them is.\<close>

fun exposureTotal :: "(string \<times> real option) list \<Rightarrow> real option" where
  "exposureTotal [] = Some 0"
| "exposureTotal ((k, v) # rest) =
     (case (v, exposureTotal rest) of (Some x, Some t) \<Rightarrow> Some (x + t) | _ \<Rightarrow> None)"

text \<open>
  \<open>calculateSlippage\<close> and \<open>calculateSlippageTolerance\<close>, in binary64. The entries of
  \<open>assetVolatility\<close> are decimal literals, so a volatility is the \<open>f64\<close> of what the table
  holds. With a finite amount no operation overflows, so \<open>None\<close> is \<open>NaN\<close> here: it comes
  from a volatility that is an inherited member or from the square root of a negative
  number, and \<open>Math.max\<close> and \<open>Math.min\<close> return \<open>NaN\<close> when an argument is.
\<close>

definition fl_max :: "real option \<Rightarrow> real option \<Rightarrow> real option" where
  "fl_max a b = (case (a, b) of (Some x, Some y) \<Rightarrow> Some (max x y) | _ \<Rightarrow> None)"

definition fl_min :: "real option \<Rightarrow> real option \<Rightarrow> real option" where
  "fl_min a b = (case (a, b) of (Some x, Some y) \<Rightarrow> Some (min x y) | _ \<Rightarrow> None)"

definition calculateSlippage :: "string \<Rightarrow> string \<Rightarrow> real \<Rightarrow> real option" where
  "calculateSlippage fromToken toToken amount =
     (let fromVolatility = Option.bind (lookupOr assetVolatility fromToken 0.05) f64;
          toVolatility = Option.bind (lookupOr assetVolatility toToken 0.05) f64;
          avgVolatility = fl_div (fl_add fromVolatility toVolatility) 2;
          amountFactor = fl_sqrt (fl_div (Some amount) 10000);
          slippage = fl_mul (fl_mul avgVolatility (f64 0.1)) amountFactor
      in fl_min (fl_max slippage (f64 0.001)) (f64 0.05))"

definition calculateSlippageTolerance :: "string \<Rightarrow> string \<Rightarrow> real \<Rightarrow> real option" where
  "calculateSlippageTolerance fromToken toToken amount =
     (let estimatedSlippage = calculateSlippage fromToken toToken amount
      in fl_mul estimatedSlippage (Some 1.5))"

section \<open>Auxiliary facts\<close>

subsection \<open>Pool registry\<close>

lemma poolKey_cases:
  "poolKey p = None \<or> poolKey p = Some (''susd'', ''susdPoolAddress123456789'')
   \<or> poolKey p = Some (''tripool'', ''tripoolAddress123456789'')
   \<or> poolKey p = Some (''usds'', ''usdsPoolAddress123456789'')"
  by (simp add: poolKey_def PRODUCTION_POOLS_def)

lemma getPoolInfo_tvl_pos: "0 < tvl (getPoolInfo p)"
  using poolKey_cases [of p]
  by (auto simp add: getPoolInfo_def poolData_def)

lemma getPoolInfo_susd:
  "getPoolInfo ''susd'' =
     \<lparr>address = ''susdPoolAddress123456789'', name = ''Stable USD Pool'',
      tokens = [''USDC'', ''USDT'', ''PYUSD''], decimals = [6, 6, 6],
      fees = \<lparr>swapFee = 0.0004, adminFee = 0.0001\<rparr>, tvl = 100000000\<rparr>"
  by (simp add: getPoolInfo_def poolKey_def PRODUCTION_POOLS_def poolData_def)

lemma getPoolInfo_tripool:
  "getPoolInfo ''tripool'' =
     \<lparr>address = ''tripoolAddress123456789'', name = ''Tri-Pool'',
      tokens = [''USDC'', ''USDT'', ''DAI''], decimals = [6, 6, 18],
      fees = \<lparr>swapFee = 0.0004, adminFee = 0.0001\<rparr>, tvl = 50000000\<rparr>"
  by (simp add: getPoolInfo_def poolKey_def PRODUCTION_POOLS_def poolData_def)

lemma getPoolInfo_usds:
  "getPoolInfo ''usds'' =
     \<lparr>address = ''usdsPoolAddress123456789'', name = ''USD* Pool'',
      tokens = [''USDC'', ''USDT'', ''USD*''], decimals = [6, 6, 6],
      fees = \<lparr>swapFee = 0.0003, adminFee = 0.0001\<rparr>, tvl = 75000000\<rparr>"
  by (simp add: getPoolInfo_def poolKey_def PRODUCTION_POOLS_def poolData_def)

lemma findDirectPool_none:
  "findDirectPool (map fst PRODUCTION_POOLS) a b = '''' \<longleftrightarrow> \<not> directRouteExists a b"
  by (simp add: directRouteExists_def poolHasPair_def PRODUCTION_POOLS_def)

lemma no_route_FOO_BAR:
  "\<not> directRouteExists ''FOO'' ''BAR''" "\<not> usdcRouteExists ''FOO'' ''BAR''"
  by (simp_all add: directRouteExists_def usdcRouteExists_def poolHasPair_def
      PRODUCTION_POOLS_def getPoolInfo_susd getPoolInfo_tripool getPoolInfo_usds)

subsection \<open>Sums\<close>


lemma totalValue_sum:
  "foldl (\<lambda>sum asset. sum + usdValue asset) acc portfolio
     = acc + sum_list (map usdValue portfolio)"
  by (induction portfolio arbitrary: acc) simp_all

lemma positive_summand:
  "\<forall>x \<in> set xs. 0 \<le> x \<Longrightarrow> 0 < sum_list xs \<Longrightarrow> \<exists>x \<in> set xs. (0::real) < x"
proof (induction xs)
  case Nil
  then show ?case by simp
next
  case (Cons x xs)
  then show ?case by (cases "0 < x") auto
qed

subsection \<open>The risk tables\<close>

lemma or_default_pos:
  assumes "0 < d" and "\<And>v. x = Some v \<Longrightarrow> 0 < v"
  shows "0 < or_default x d"
  using assms by (cases x) simp_all

lemma ordinaryKey_not_proto: "ordinaryKey k \<Longrightarrow> k \<noteq> ''__proto__''"
  by (auto simp add: ordinaryKey_def objectPrototypeKeys_def)

lemma assetVolatility_entries:
  "map_of assetVolatility s = Some v \<Longrightarrow> 0.01 \<le> v"
  by (drule map_of_SomeD) (auto simp add: assetVolatility_def)

lemma volatilityOf_ordinary:
  assumes "ordinaryKey s"
  shows "\<exists>v. volatilityOf s = Some v \<and> 0.01 \<le> v"
proof (cases "map_of assetVolatility s")
  case None
  then have "volatilityOf s = Some 0.05"
    using assms by (simp add: volatilityOf_def lookupOr_def)
  moreover have "(0.01::real) \<le> 0.05" by simp
  ultimately show ?thesis by blast
next
  case (Some v)
  then have low: "0.01 \<le> v" by (rule assetVolatility_entries)
  then have "v \<noteq> 0" by auto
  then have "volatilityOf s = Some v"
    using Some by (simp add: volatilityOf_def lookupOr_def)
  then show ?thesis using low by blast
qed

lemma volatilityOf_unlisted:
  "ordinaryKey s \<Longrightarrow> map_of assetVolatility s = None \<Longrightarrow> volatilityOf s = Some 0.05"
  by (simp add: volatilityOf_def lookupOr_def)

lemma lookupOr_ordinary: "ordinaryKey s \<Longrightarrow> lookupOr table s d \<noteq> None"
  by (cases "map_of table s") (simp_all add: lookupOr_def)

lemma matrixEntry_pos: "matrixEntry a b = Some v \<Longrightarrow> 0 < v"
proof -
  assume h: "matrixEntry a b = Some v"
  then obtain row where r: "map_of correlationMatrix a = Some row" and e: "map_of row b = Some v"
    by (auto simp add: matrixEntry_def split: option.splits)
  from r have "(a, row) \<in> set correlationMatrix" by (rule map_of_SomeD)
  moreover from e have "(b, v) \<in> set row" by (rule map_of_SomeD)
  ultimately show "0 < v"
    by (auto simp add: correlationMatrix_def)
qed

lemma getCorrelation_pos: "0 < getCorrelation a b"
proof -
  have "0 < or_default (matrixEntry b a) 0.5"
    by (rule or_default_pos) (simp, erule matrixEntry_pos)
  then show ?thesis
    unfolding getCorrelation_def
    by (rule or_default_pos) (erule matrixEntry_pos)
qed

lemma vol_USDC: "volatilityOf ''USDC'' = Some 0.01"
  by (simp add: volatilityOf_def lookupOr_def assetVolatility_def)

lemma vol_xGOLD: "volatilityOf ''xGOLD'' = Some 0.15"
  by (simp add: volatilityOf_def lookupOr_def assetVolatility_def)

lemma corr_USDC_xGOLD: "getCorrelation ''USDC'' ''xGOLD'' = 0.1"
  by (simp add: getCorrelation_def matrixEntry_def correlationMatrix_def)

lemma corr_xGOLD_USDC: "getCorrelation ''xGOLD'' ''USDC'' = 0.1"
  by (simp add: getCorrelation_def matrixEntry_def correlationMatrix_def)

subsection \<open>Weights of a portfolio with distinct ordinary symbols\<close>

lemma setKey_fresh: "k \<notin> fst ` set ws \<Longrightarrow> setKey k v ws = ws @ [(k, v)]"
  by (induction ws) auto

lemma portfolioWeights_foldl:
  "distinct (map fst acc @ map symbol ps) \<Longrightarrow> \<forall>a \<in> set ps. symbol a \<noteq> ''__proto__'' \<Longrightarrow>
   foldl (\<lambda>weights asset.
            if symbol asset = ''__proto__'' then weights
            else setKey (symbol asset) (usdValue asset / t) weights) acc ps
     = acc @ map (\<lambda>asset. (symbol asset, usdValue asset / t)) ps"
proof (induction ps arbitrary: acc)
  case Nil
  then show ?case by simp
next
  case (Cons a ps)
  have fresh: "symbol a \<notin> fst ` set acc"
    using Cons.prems(1) by auto
  have keep: "symbol a \<noteq> ''__proto__''" and rest: "\<forall>b \<in> set ps. symbol b \<noteq> ''__proto__''"
    using Cons.prems(2) by simp_all
  have "distinct (map fst (acc @ [(symbol a, usdValue a / t)]) @ map symbol ps)"
    using Cons.prems(1) by auto
  then show ?case
    using Cons.IH [of "acc @ [(symbol a, usdValue a / t)]"] rest keep
    by (simp add: setKey_fresh [OF fresh])
qed

lemma portfolioWeights_distinct:
  "distinct (map symbol portfolio) \<Longrightarrow> \<forall>a \<in> set portfolio. ordinaryKey (symbol a) \<Longrightarrow>
   portfolioWeights portfolio t = map (\<lambda>asset. (symbol asset, usdValue asset / t)) portfolio"
  using portfolioWeights_foldl [of "[]" portfolio t]
  by (simp add: portfolioWeights_def ordinaryKey_not_proto)

subsection \<open>The variance loops never decrease the accumulator\<close>

lemma covarianceLoop_mono:
  assumes "0 \<le> weightI" and "0 \<le> volI"
    and "\<forall>(k, w) \<in> set rest. 0 \<le> w \<and> ordinaryKey k"
  shows "\<exists>acc'. covarianceLoop assetI weightI (Some volI) rest (Some acc) = Some acc'
           \<and> acc \<le> acc'"
  using assms(3)
proof (induction rest arbitrary: acc)
  case Nil
  then show ?case by simp
next
  case (Cons e rest)
  obtain assetJ weightJ where e: "e = (assetJ, weightJ)" by (cases e)
  have wj: "0 \<le> weightJ" and kj: "ordinaryKey assetJ" using Cons.prems e by simp_all
  obtain volJ where vj: "volatilityOf assetJ = Some volJ" and vj_low: "0.01 \<le> volJ"
    using volatilityOf_ordinary [OF kj] by blast
  define d where
    "d = 2 * weightI * weightJ * volI * volJ * getCorrelation assetI assetJ"
  have "0 \<le> d"
    unfolding d_def
    using assms(1,2) wj vj_low getCorrelation_pos [of assetI assetJ]
    by (intro mult_nonneg_nonneg) simp_all
  then have step: "acc \<le> acc + d" by simp
  have "\<forall>(k, w) \<in> set rest. 0 \<le> w \<and> ordinaryKey k" using Cons.prems by simp
  then obtain acc' where
    run: "covarianceLoop assetI weightI (Some volI) rest (Some (acc + d)) = Some acc'"
    and le: "acc + d \<le> acc'"
    using Cons.IH [of "acc + d"] by blast
  have "covarianceLoop assetI weightI (Some volI) (e # rest) (Some acc) = Some acc'"
    using run by (simp add: e vj d_def)
  then show ?case using step le by auto
qed

lemma varianceLoop_mono:
  assumes "\<forall>(k, w) \<in> set ws. 0 \<le> w \<and> ordinaryKey k"
  shows "\<exists>acc'. varianceLoop ws (Some acc) = Some acc' \<and> acc \<le> acc'"
  using assms
proof (induction ws arbitrary: acc)
  case Nil
  then show ?case by simp
next
  case (Cons e ws)
  obtain assetI weightI where e: "e = (assetI, weightI)" by (cases e)
  have wi: "0 \<le> weightI" and ki: "ordinaryKey assetI" using Cons.prems e by simp_all
  have rest: "\<forall>(k, w) \<in> set ws. 0 \<le> w \<and> ordinaryKey k" using Cons.prems by simp
  obtain volI where vi: "volatilityOf assetI = Some volI" and vi_low: "0.01 \<le> volI"
    using volatilityOf_ordinary [OF ki] by blast
  define acc1 where "acc1 = acc + weightI * weightI * volI * volI"
  have "0 \<le> weightI * weightI * volI * volI"
    using wi vi_low by (intro mult_nonneg_nonneg) simp_all
  then have a01: "acc \<le> acc1" by (simp add: acc1_def)
  obtain acc2 where
    inner: "covarianceLoop assetI weightI (Some volI) ws (Some acc1) = Some acc2"
    and a12: "acc1 \<le> acc2"
    using covarianceLoop_mono [of weightI volI ws assetI acc1] wi vi_low rest by auto
  obtain acc3 where outer: "varianceLoop ws (Some acc2) = Some acc3" and a23: "acc2 \<le> acc3"
    using Cons.IH [OF rest, of acc2] by blast
  have "varianceLoop (e # ws) (Some acc) = Some acc3"
    using inner outer by (simp add: e vi acc1_def)
  then show ?case using a01 a12 a23 by auto
qed

lemma varianceLoop_strict:
  assumes "\<forall>(k, w) \<in> set ws. 0 \<le> w \<and> ordinaryKey k" and "\<exists>(k, w) \<in> set ws. 0 < w"
  shows "\<exists>acc'. varianceLoop ws (Some acc) = Some acc' \<and> acc < acc'"
  using assms
proof (induction ws arbitrary: acc)
  case Nil
  then show ?case by simp
next
  case (Cons e ws)
  obtain assetI weightI where e: "e = (assetI, weightI)" by (cases e)
  have wi: "0 \<le> weightI" and ki: "ordinaryKey assetI" using Cons.prems(1) e by simp_all
  have rest: "\<forall>(k, w) \<in> set ws. 0 \<le> w \<and> ordinaryKey k" using Cons.prems(1) by simp
  obtain volI where vi: "volatilityOf assetI = Some volI" and vi_low: "0.01 \<le> volI"
    using volatilityOf_ordinary [OF ki] by blast
  define acc1 where "acc1 = acc + weightI * weightI * volI * volI"
  obtain acc2 where
    inner: "covarianceLoop assetI weightI (Some volI) ws (Some acc1) = Some acc2"
    and a12: "acc1 \<le> acc2"
    using covarianceLoop_mono [of weightI volI ws assetI acc1] wi vi_low rest by auto
  have step: "varianceLoop (e # ws) (Some acc) = varianceLoop ws (Some acc2)"
    using inner by (simp add: e vi acc1_def)
  show ?case
  proof (cases "0 < weightI")
    case True
    have "0 < weightI * weightI * volI * volI"
      using True vi_low by simp
    then have a01: "acc < acc1" by (simp add: acc1_def)
    obtain acc3 where outer: "varianceLoop ws (Some acc2) = Some acc3" and a23: "acc2 \<le> acc3"
      using varianceLoop_mono [OF rest, of acc2] by blast
    show ?thesis using step outer a01 a12 a23 by auto
  next
    case False
    then have ex: "\<exists>(k, w) \<in> set ws. 0 < w"
      using Cons.prems(2) e by auto
    have "0 \<le> weightI * weightI * volI * volI"
      using wi vi_low by (intro mult_nonneg_nonneg) simp_all
    then have a01: "acc \<le> acc1" by (simp add: acc1_def)
    obtain acc3 where outer: "varianceLoop ws (Some acc2) = Some acc3" and a23: "acc2 < acc3"
      using Cons.IH [OF rest ex, of acc2] by blast
    show ?thesis using step outer a01 a12 a23 by auto
  qed
qed

lemma expectedReturn_defined:
  assumes "\<forall>(k, w) \<in> set ws. ordinaryKey k"
  shows "\<exists>r. foldl (\<lambda>portfolioReturn (asset, weight).
                 case (portfolioReturn, lookupOr table asset d) of
                   (Some r, Some e) \<Rightarrow> Some (r + weight * e)
                 | _ \<Rightarrow> None) (Some acc) ws = Some r"
  using assms
proof (induction ws arbitrary: acc)
  case Nil
  then show ?case by simp
next
  case (Cons e ws)
  obtain asset weight where e: "e = (asset, weight)" by (cases e)
  have "ordinaryKey asset" using Cons.prems e by simp
  then obtain ret where ret: "lookupOr table asset d = Some ret"
    using lookupOr_ordinary [of asset table d] by auto
  have rest: "\<forall>(k, w) \<in> set ws. ordinaryKey k" using Cons.prems by simp
  show ?case
    using Cons.IH [OF rest, of "acc + weight * ret"] by (simp add: e ret)
qed

subsection \<open>A portfolio of two assets in equal parts\<close>

lemma weights_two:
  "portfolioWeights
     [\<lparr>symbol = ''USDC'', balance = 50, usdValue = 50\<rparr>,
      \<lparr>symbol = ''xGOLD'', balance = 1, usdValue = 50\<rparr>] 100
   = [(''USDC'', 1 / 2), (''xGOLD'', 1 / 2)]"
  by (simp add: portfolioWeights_def)

lemma variance_two:
  "varianceLoop [(''USDC'', 1 / 2), (''xGOLD'', 1 / 2)] (Some 0) = Some 0.005725"
  by (simp add: vol_USDC vol_xGOLD corr_USDC_xGOLD)

lemma volatility_two:
  "calculatePortfolioVolatility [(''USDC'', 1 / 2), (''xGOLD'', 1 / 2)] = Some (sqrt 0.005725)"
  unfolding calculatePortfolioVolatility_def variance_two by (simp add: js_sqrt_def)

lemma sqrt_bounds: "0 < sqrt (0.005725 :: real)" "sqrt (0.005725 :: real) < 0.076"
proof -
  show "0 < sqrt (0.005725 :: real)" by simp
  have "sqrt (0.005725 :: real) < sqrt (0.076 ^ 2)"
    by (subst real_sqrt_less_iff) (simp add: power2_eq_square)
  then show "sqrt (0.005725 :: real) < 0.076" by simp
qed

lemma total_two:
  "totalValue (calculateRiskMetrics
     [\<lparr>symbol = ''USDC'', balance = 50, usdValue = 50\<rparr>,
      \<lparr>symbol = ''xGOLD'', balance = 1, usdValue = 50\<rparr>]) = 100"
proof -
  have "foldl (\<lambda>sum asset. sum + usdValue asset) 0
          [\<lparr>symbol = ''USDC'', balance = 50, usdValue = 50\<rparr>,
           \<lparr>symbol = ''xGOLD'', balance = 1, usdValue = 50\<rparr>] = 100"
    by simp
  then show ?thesis
    unfolding calculateRiskMetrics_def Let_def by simp
qed

subsection \<open>Binary64 rounding\<close>

lemma round_even_error: "\<bar>of_int (round_even y) - y\<bar> \<le> 1 / 2"
proof -
  have "of_int \<lfloor>y\<rfloor> \<le> y" and "y < of_int \<lfloor>y\<rfloor> + 1" by linarith+
  then show ?thesis
    by (auto simp add: round_even_def Let_def)
qed

lemma round_even_nonneg: "0 \<le> y \<Longrightarrow> 0 \<le> round_even y"
  by (auto simp add: round_even_def Let_def)

lemma round_even_near:
  assumes "of_int n - 1 / 2 < y" and "y < of_int n + 1 / 2"
  shows "round_even y = n"
proof -
  have "\<bar>of_int (round_even y) - y\<bar> \<le> 1 / 2" by (rule round_even_error)
  then have "\<bar>(of_int (round_even y) :: real) - of_int n\<bar> < 1" using assms by linarith
  then have "\<bar>round_even y - n\<bar> < 1"
    by (metis of_int_diff of_int_abs of_int_less_iff of_int_1)
  then show ?thesis by linarith
qed

lemma ulp64_pos: "0 < ulp64 x"
  by (simp add: ulp64_def)

lemma ulp64_half:
  "ulp64 x / 2 \<le> 2 powr (- 53) * \<bar>x\<bar> + 2 powr (- 1075)"
proof (cases "\<bar>x\<bar> < 2 powr (- 1022)")
  case True
  have "(2::real) powr (- 1074) / 2 = 2 powr (- 1075)"
    using powr_add [of "2::real" "- 1075" 1] by simp
  then show ?thesis using True by (simp add: ulp64_def)
next
  case False
  moreover have "(0::real) < 2 powr (- 1022)" by simp
  ultimately have pos: "0 < \<bar>x\<bar>" by linarith
  have "2 powr (of_int \<lfloor>log 2 \<bar>x\<bar>\<rfloor>) \<le> 2 powr (log 2 \<bar>x\<bar>)"
    by (intro powr_mono) simp_all
  also have "\<dots> = \<bar>x\<bar>" using pos by simp
  finally have low: "2 powr (of_int \<lfloor>log 2 \<bar>x\<bar>\<rfloor>) \<le> \<bar>x\<bar>" .
  have "ulp64 x / 2 = 2 powr (- 53) * 2 powr (of_int \<lfloor>log 2 \<bar>x\<bar>\<rfloor>)"
    using False powr_add [of "2::real" "- 53" "of_int \<lfloor>log 2 \<bar>x\<bar>\<rfloor>"]
      powr_add [of "2::real" "- 53 + of_int \<lfloor>log 2 \<bar>x\<bar>\<rfloor>" 1]
    by (simp add: ulp64_def algebra_simps)
  also have "\<dots> \<le> 2 powr (- 53) * \<bar>x\<bar>"
    using low by (intro mult_left_mono) simp_all
  finally have "ulp64 x / 2 \<le> 2 powr (- 53) * \<bar>x\<bar>" .
  moreover have "(0::real) < 2 powr (- 1075)" by simp
  ultimately show ?thesis by linarith
qed

lemma pow2_1023_large: "(4::real) \<le> 2 powr 1023"
proof -
  have "(2::real) powr 2 \<le> 2 powr 1023" by (intro powr_mono) simp_all
  then show ?thesis by simp
qed

lemma eps_small: "(2::real) powr (- 53) \<le> 1 / 10000"
proof -
  have "(2::real) powr (- 53) \<le> 2 powr (- 14)" by (intro powr_mono) simp_all
  also have "\<dots> = 1 / 2 ^ 14" by (simp add: powr_neg_numeral)
  also have "\<dots> \<le> 1 / 10000" by simp
  finally show ?thesis .
qed

lemma eta_small: "(2::real) powr (- 1075) \<le> 1 / 10000"
proof -
  have "(2::real) powr (- 1075) \<le> 2 powr (- 53)" by (intro powr_mono) simp_all
  then show ?thesis using eps_small by linarith
qed

lemma f64_bound:
  assumes "0 \<le> x" and "x \<le> 2 powr 1023"
  shows "\<exists>r. f64 x = Some r \<and> 0 \<le> r
           \<and> \<bar>r - x\<bar> \<le> 2 powr (- 53) * x + 2 powr (- 1075)"
proof -
  define u where "u = ulp64 x"
  define r where "r = of_int (round_even (x / u)) * u"
  have u_pos: "0 < u" unfolding u_def by (rule ulp64_pos)
  have "\<bar>of_int (round_even (x / u)) - x / u\<bar> \<le> 1 / 2" by (rule round_even_error)
  then have "\<bar>of_int (round_even (x / u)) - x / u\<bar> * u \<le> 1 / 2 * u"
    using u_pos by (intro mult_right_mono) simp_all
  moreover have "\<bar>of_int (round_even (x / u)) - x / u\<bar> * u = \<bar>r - x\<bar>"
  proof -
    have "(of_int (round_even (x / u)) - x / u) * u = r - x"
      using u_pos by (simp add: r_def left_diff_distrib)
    then have "\<bar>r - x\<bar> = \<bar>of_int (round_even (x / u)) - x / u\<bar> * \<bar>u\<bar>"
      by (simp only: abs_mult [symmetric])
    then show ?thesis using u_pos by simp
  qed
  ultimately have "\<bar>r - x\<bar> \<le> u / 2" by simp
  also have "u / 2 \<le> 2 powr (- 53) * \<bar>x\<bar> + 2 powr (- 1075)"
    unfolding u_def by (rule ulp64_half)
  finally have err: "\<bar>r - x\<bar> \<le> 2 powr (- 53) * x + 2 powr (- 1075)"
    using assms(1) by simp
  have "0 \<le> x / u" using assms(1) u_pos by simp
  then have "0 \<le> round_even (x / u)" by (rule round_even_nonneg)
  then have r_nonneg: "0 \<le> r" using u_pos by (simp add: r_def)
  have "2 powr (- 53) * x \<le> 1 / 10000 * x"
    using eps_small assms(1) by (intro mult_right_mono) simp_all
  then have "r \<le> x + 1 / 10000 * x + 1 / 10000"
    using err eta_small by linarith
  also have "\<dots> < 2 * 2 powr 1023"
    using assms(2) pow2_1023_large by linarith
  also have "\<dots> = 2 powr 1024"
    using powr_add [of "2::real" 1 1023] by simp
  finally have "\<not> 2 powr 1024 \<le> \<bar>r\<bar>" using r_nonneg by simp
  then have "f64 x = Some r"
    by (simp add: f64_def Let_def r_def u_def)
  then show ?thesis using r_nonneg err by blast
qed

lemma f64_upper:
  assumes "0 \<le> x" and "x \<le> 2 powr 1023"
  shows "\<exists>r. f64 x = Some r \<and> 0 \<le> r \<and> r \<le> (1 + 2 powr (- 53)) * x + 2 powr (- 1075)"
proof -
  obtain r where "f64 x = Some r" and "0 \<le> r"
    and "\<bar>r - x\<bar> \<le> 2 powr (- 53) * x + 2 powr (- 1075)"
    using f64_bound [OF assms] by blast
  moreover from this have "r \<le> (1 + 2 powr (- 53)) * x + 2 powr (- 1075)"
    by (simp add: algebra_simps abs_le_iff)
  ultimately show ?thesis by blast
qed

lemma f64_subnormal:
  assumes "\<bar>y\<bar> < 2 powr 52"
  shows "f64 (y * 2 powr (- 1074)) = Some (of_int (round_even y) * 2 powr (- 1074))"
proof -
  define q :: real where "q = 2 powr (- 1074)"
  have q_pos: "0 < q" by (simp add: q_def)
  have q_small: "q \<le> 1 / 10000"
  proof -
    have "q \<le> 2 powr (- 53)" unfolding q_def by (intro powr_mono) simp_all
    then show ?thesis using eps_small by linarith
  qed
  have split: "(2::real) powr (- 1022) = 2 powr 52 * q"
    using powr_add [of "2::real" 52 "- 1074"] by (simp add: q_def)
  have "\<bar>y * q\<bar> = \<bar>y\<bar> * q" using q_pos by (simp add: abs_mult)
  also have "\<dots> < 2 powr 52 * q" using assms q_pos by (intro mult_strict_right_mono)
  finally have sub: "\<bar>y * q\<bar> < 2 powr (- 1022)" by (simp only: split)
  then have u: "ulp64 (y * q) = q" by (simp add: ulp64_def q_def)
  have quot: "y * q / q = y" using q_pos by simp
  have "\<bar>of_int (round_even y) - y\<bar> \<le> 1 / 2" by (rule round_even_error)
  then have "\<bar>(of_int (round_even y) :: real)\<bar> \<le> \<bar>y\<bar> + 1 / 2" by linarith
  then have "\<bar>of_int (round_even y) * q\<bar> \<le> (\<bar>y\<bar> + 1 / 2) * q"
    using q_pos by (simp add: abs_mult)
  also have "\<dots> = \<bar>y\<bar> * q + q / 2" by (simp add: algebra_simps)
  also have "\<dots> < 2 powr (- 1022) + q / 2"
    using \<open>\<bar>y\<bar> * q < 2 powr 52 * q\<close> split by linarith
  also have "\<dots> \<le> 2 powr 0 + q / 2"
    by (intro add_right_mono powr_mono) simp_all
  also have "\<dots> < 4" using q_small by simp
  also have "\<dots> \<le> 2 powr 1023" by (rule pow2_1023_large)
  also have "\<dots> \<le> 2 powr 1024" by (intro powr_mono) simp_all
  finally have fin: "\<not> 2 powr 1024 \<le> \<bar>of_int (round_even y) * q\<bar>" by simp
  show ?thesis
    unfolding f64_def Let_def q_def [symmetric] u quot using fin by simp
qed

lemma pow2_52_large: "(4::real) \<le> 2 powr 52"
proof -
  have "(2::real) powr 2 \<le> 2 powr 52" by (intro powr_mono) simp_all
  then show ?thesis by simp
qed

lemma round_even_3: "5 / 2 < y \<Longrightarrow> y < 7 / 2 \<Longrightarrow> round_even y = 3"
  using round_even_near [of 3 y] by simp

lemma round_even_half: "round_even (3 / 2) = 2"
proof -
  have "\<lfloor>3 / 2 :: real\<rfloor> = 1" by linarith
  then show ?thesis by (simp add: round_even_def Let_def)
qed

lemma f64_constant:
  assumes "0 \<le> c" and "c \<le> 2"
  shows "\<exists>r. f64 c = Some r \<and> 9999 / 10000 * c - 1 / 10000 \<le> r
           \<and> r \<le> 10001 / 10000 * c + 1 / 10000"
proof -
  have "c \<le> 2 powr 1023" using assms(2) pow2_1023_large by linarith
  then obtain r where r: "f64 c = Some r"
    and err: "\<bar>r - c\<bar> \<le> 2 powr (- 53) * c + 2 powr (- 1075)"
    using f64_bound [OF assms(1)] by blast
  have "2 powr (- 53) * c \<le> 1 / 10000 * c"
    using eps_small assms(1) by (intro mult_right_mono) simp_all
  then have "\<bar>r - c\<bar> \<le> 1 / 10000 * c + 1 / 10000"
    using err eta_small by linarith
  then show ?thesis using r by (auto simp add: abs_le_iff)
qed

lemma three_quanta:
  assumes "f64 c = Some r" and "9 / 10 \<le> r" and "r \<le> 11 / 10"
  shows "fl_mul (Some (3 * 2 powr (- 1074))) (f64 c) = Some (3 * 2 powr (- 1074))"
proof -
  have "\<bar>3 * r\<bar> < 2 powr 52" using assms(2,3) pow2_52_large by linarith
  then have round: "f64 ((3 * r) * 2 powr (- 1074))
                      = Some (of_int (round_even (3 * r)) * 2 powr (- 1074))"
    by (rule f64_subnormal)
  have three: "round_even (3 * r) = 3"
    using assms(2,3) by (intro round_even_3) linarith+
  have "fl_mul (Some (3 * 2 powr (- 1074))) (f64 c) = f64 (3 * 2 powr (- 1074) * r)"
    unfolding fl_mul_def assms(1) by simp
  also have "\<dots> = f64 ((3 * r) * 2 powr (- 1074))"
    by (rule arg_cong [where f = f64]) simp
  also have "\<dots> = Some (3 * 2 powr (- 1074))"
    unfolding round three by simp
  finally show ?thesis .
qed

lemma power_one_plus_bound:
  fixes e :: real
  assumes "0 \<le> e" and "2 * real n * e \<le> 1"
  shows "(1 + e) ^ n \<le> 1 + 2 * real n * e"
  using assms(2)
proof (induction n)
  case 0
  then show ?case by simp
next
  case (Suc n)
  have small: "2 * real n * e \<le> 1"
    using Suc.prems assms(1) by (simp add: algebra_simps) 
  have ih: "(1 + e) ^ n \<le> 1 + 2 * real n * e" using Suc.IH small by simp
  have "(2 * real n * e) * e \<le> 1 * e"
    using small assms(1) by (intro mult_right_mono)
  then have extra: "2 * real n * e * e \<le> e" by simp
  have "(1 + e) ^ Suc n = (1 + e) * (1 + e) ^ n" by simp
  also have "\<dots> \<le> (1 + e) * (1 + 2 * real n * e)"
    using ih assms(1) by (intro mult_left_mono) simp_all
  also have "\<dots> = 1 + 2 * real n * e + e + 2 * real n * e * e"
    by (simp add: algebra_simps)
  also have "\<dots> \<le> 1 + 2 * real (Suc n) * e"
    using extra by (simp add: algebra_simps)
  finally show ?case .
qed

lemma eps_length:
  assumes "n \<le> 2 ^ 32"
  shows "2 * real n * 2 powr (- 53) \<le> 1 / 10000"
proof -
  have "real n \<le> 2 ^ 32" using assms by (metis of_nat_le_iff of_nat_numeral of_nat_power)
  then have "real n \<le> 2 powr 32" by simp
  then have "2 * real n * 2 powr (- 53) \<le> 2 * 2 powr 32 * 2 powr (- 53)"
    by (intro mult_right_mono mult_left_mono) simp_all
  also have "\<dots> = 2 powr (- 20)"
    using powr_add [of "2::real" 1 32] powr_add [of "2::real" 33 "- 53"] by simp
  also have "\<dots> \<le> 2 powr (- 14)" by (intro powr_mono) simp_all
  also have "\<dots> = 1 / 2 ^ 14" by (simp add: powr_neg_numeral)
  also have "\<dots> \<le> 1 / 10000" by simp
  finally show ?thesis .
qed

lemma growth_length:
  assumes "n \<le> 2 ^ 32"
  shows "(1 + 2 powr (- 53)) ^ n \<le> (10001 / 10000 :: real)"
proof -
  have small: "2 * real n * 2 powr (- 53) \<le> 1 / 10000" using assms by (rule eps_length)
  then have "2 * real n * 2 powr (- 53) \<le> 1" by linarith
  then have "(1 + 2 powr (- 53)) ^ n \<le> 1 + 2 * real n * 2 powr (- 53)"
    by (intro power_one_plus_bound) simp_all
  then show ?thesis using small by linarith
qed

lemma eta_length:
  assumes "n \<le> 2 ^ 32" and "2 powr (- 1022) \<le> s"
  shows "real n * 2 powr (- 1075) \<le> s / 10000"
proof -
  have "real n \<le> 2 ^ 32" using assms(1) by (metis of_nat_le_iff of_nat_numeral of_nat_power)
  then have "real n \<le> 2 powr 32" by simp
  then have "real n * 2 powr (- 1075) \<le> 2 powr 32 * 2 powr (- 1075)"
    by (intro mult_right_mono) simp_all
  also have "\<dots> = 2 powr (- 21) * 2 powr (- 1022)"
    using powr_add [of "2::real" 32 "- 1075"] powr_add [of "2::real" "- 21" "- 1022"] by simp
  also have "\<dots> \<le> 2 powr (- 21) * s"
    using assms(2) by (intro mult_left_mono) simp_all
  also have "\<dots> \<le> 2 powr (- 14) * s"
  proof -
    have "(2::real) powr (- 21) \<le> 2 powr (- 14)" by (intro powr_mono) simp_all
    moreover have "0 \<le> s" using assms(2) powr_ge_zero [of 2 "- 1022"] by linarith
    ultimately show ?thesis by (intro mult_right_mono)
  qed
  also have "\<dots> = 1 / 2 ^ 14 * s" by (simp add: powr_neg_numeral)
  also have "\<dots> \<le> 1 / 10000 * s"
  proof -
    have "0 \<le> s" using assms(2) powr_ge_zero [of 2 "- 1022"] by linarith
    then show ?thesis by (intro mult_right_mono) simp_all
  qed
  finally show ?thesis by simp
qed

lemma float_sum_bound:
  assumes "0 \<le> acc" and "\<forall>x \<in> set xs. 0 \<le> x"
    and "(acc + sum_list xs + real (length xs) * 2 powr (- 1075))
           * (1 + 2 powr (- 53)) ^ length xs \<le> 2 powr 1023"
  shows "\<exists>t. foldl (\<lambda>sum amount. fl_add sum (Some amount)) (Some acc) xs = Some t
           \<and> 0 \<le> t
           \<and> t \<le> (acc + sum_list xs + real (length xs) * 2 powr (- 1075))
                    * (1 + 2 powr (- 53)) ^ length xs"
  using assms
proof (induction xs arbitrary: acc)
  case Nil
  then show ?case by simp
next
  case (Cons x xs)
  define e :: real where "e = 2 powr (- 53)"
  define h :: real where "h = 2 powr (- 1075)"
  define n where "n = length xs"
  define s where "s = sum_list xs"
  have e_pos: "0 \<le> e" and h_pos: "0 \<le> h" by (simp_all add: e_def h_def)
  have x_pos: "0 \<le> x" and rest: "\<forall>y \<in> set xs. 0 \<le> y" using Cons.prems(2) by simp_all
  have s_pos: "0 \<le> s" unfolding s_def using rest by (simp add: sum_list_nonneg)
  have grow: "1 \<le> (1 + e) ^ n" using e_pos by simp
  have grow': "1 \<le> (1 + e) ^ Suc n" using e_pos by (intro one_le_power) simp
  define B where "B = (acc + x + s + real (Suc n) * h) * (1 + e) ^ Suc n"
  have B_le: "B \<le> 2 powr 1023"
    using Cons.prems(3) by (simp add: B_def e_def h_def n_def s_def algebra_simps)
  have inner_pos: "0 \<le> acc + x + s + real (Suc n) * h"
    using Cons.prems(1) x_pos s_pos h_pos by simp
  have "acc + x \<le> acc + x + s + real (Suc n) * h"
    using s_pos h_pos by simp
  also have "\<dots> = (acc + x + s + real (Suc n) * h) * 1" by simp
  also have "\<dots> \<le> B"
    unfolding B_def using inner_pos grow' by (intro mult_left_mono)
  finally have ax_le: "acc + x \<le> B" .
  then have "acc + x \<le> 2 powr 1023" using B_le by linarith
  moreover have "0 \<le> acc + x" using Cons.prems(1) x_pos by simp
  ultimately obtain a' where a': "f64 (acc + x) = Some a'" and a'_pos: "0 \<le> a'"
    and a'_le: "a' \<le> (1 + e) * (acc + x) + h"
    using f64_upper [of "acc + x"] unfolding e_def h_def by blast
  have "(s + real (Suc n) * h) * 1 \<le> (s + real (Suc n) * h) * (1 + e)"
    using s_pos h_pos e_pos by (intro mult_left_mono) simp_all
  then have "a' + s + real n * h \<le> (acc + x + s + real (Suc n) * h) * (1 + e)"
    using a'_le by (simp add: algebra_simps)
  then have "(a' + s + real n * h) * (1 + e) ^ n
               \<le> (acc + x + s + real (Suc n) * h) * (1 + e) * (1 + e) ^ n"
    using e_pos by (intro mult_right_mono) simp_all
  also have "\<dots> = B" by (simp add: B_def)
  finally have step: "(a' + s + real n * h) * (1 + e) ^ n \<le> B" .
  then have "(a' + sum_list xs + real (length xs) * 2 powr (- 1075))
               * (1 + 2 powr (- 53)) ^ length xs \<le> 2 powr 1023"
    using B_le by (simp add: e_def h_def n_def s_def)
  then obtain t where
    run: "foldl (\<lambda>sum amount. fl_add sum (Some amount)) (Some a') xs = Some t"
    and t_pos: "0 \<le> t"
    and t_le: "t \<le> (a' + sum_list xs + real (length xs) * 2 powr (- 1075))
                       * (1 + 2 powr (- 53)) ^ length xs"
    using Cons.IH [OF a'_pos rest] by blast
  have "t \<le> B" using t_le step by (simp add: e_def h_def n_def s_def)
  then have final: "t \<le> (acc + sum_list (x # xs) + real (length (x # xs)) * 2 powr (- 1075))
                        * (1 + 2 powr (- 53)) ^ length (x # xs)"
    by (simp add: B_def e_def h_def n_def s_def algebra_simps)
  have "foldl (\<lambda>sum amount. fl_add sum (Some amount)) (Some acc) (x # xs) = Some t"
    using run by (simp add: fl_add_def a')
  then show ?case using t_pos final by blast
qed

lemma f64_scaled:
  assumes "0 \<le> x" and "x \<le> 2 powr 1023"
  shows "\<exists>r. f64 x = Some r \<and> 0 \<le> r \<and> r \<le> 10001 / 10000 * x + 2 powr (- 1075)"
proof -
  obtain r where r: "f64 x = Some r" and pos: "0 \<le> r"
    and le: "r \<le> (1 + 2 powr (- 53)) * x + 2 powr (- 1075)"
    using f64_upper [OF assms] by blast
  have "2 powr (- 53) * x \<le> 1 / 10000 * x"
    using eps_small assms(1) by (intro mult_right_mono) simp_all
  then have "r \<le> 10001 / 10000 * x + 2 powr (- 1075)"
    using le by (simp add: algebra_simps)
  then show ?thesis using r pos by blast
qed

subsection \<open>Binary64 rounding in the slippage estimator\<close>

lemma f64_coarse:
  assumes "0 \<le> x" and "x \<le> 2 powr 1023"
  shows "\<exists>r. f64 x = Some r \<and> 0 \<le> r \<and> 9999 / 10000 * x - 1 / 10000 \<le> r
           \<and> r \<le> 10001 / 10000 * x + 1 / 10000"
proof -
  obtain r where r: "f64 x = Some r" and pos: "0 \<le> r"
    and err: "\<bar>r - x\<bar> \<le> 2 powr (- 53) * x + 2 powr (- 1075)"
    using f64_bound [OF assms] by blast
  have "2 powr (- 53) * x \<le> 1 / 10000 * x"
    using eps_small assms(1) by (intro mult_right_mono) simp_all
  then have "\<bar>r - x\<bar> \<le> 1 / 10000 * x + 1 / 10000"
    using err eta_small by linarith
  then show ?thesis using r pos by (auto simp add: abs_le_iff)
qed

lemma f64_value:
  "f64 x = Some r \<Longrightarrow> r = of_int (round_even (x / ulp64 x)) * ulp64 x"
  by (simp add: f64_def Let_def split: if_splits)

lemma ulp64_normal:
  assumes "2 powr (of_int e) \<le> x" and "x < 2 powr (of_int e + 1)" and "- 1022 \<le> e"
  shows "ulp64 x = 2 powr (of_int e - 52)"
proof -
  have x_pos: "0 < x" using assms(1) powr_gt_zero [of 2 "of_int e"] by linarith
  have "of_int e \<le> log 2 x" using assms(1) x_pos by (simp add: le_log_iff)
  moreover have "log 2 x < of_int e + 1" using assms(2) x_pos by (simp add: log_less_iff)
  ultimately have fl: "\<lfloor>log 2 x\<rfloor> = e" by linarith
  have "(2::real) powr (- 1022) \<le> 2 powr (of_int e)"
    using assms(3) by (intro powr_mono) simp_all
  then have "\<not> \<bar>x\<bar> < 2 powr (- 1022)" using assms(1) x_pos by linarith
  then show ?thesis using x_pos fl by (simp add: ulp64_def)
qed

lemma round_even_tie:
  "round_even (of_int n + 1 / 2) = (if even n then n else n + 1)"
proof -
  have "\<lfloor>of_int n + 1 / 2 :: real\<rfloor> = n" by linarith
  then show ?thesis by (simp add: round_even_def Let_def)
qed

lemma f64_literal_005: "f64 0.05 = Some (3602879701896397 / 2 ^ 56)"
proof -
  obtain r where r: "f64 0.05 = Some r"
    using f64_constant [of "0.05"] by auto
  have u: "ulp64 0.05 = 2 powr (of_int (- 5) - 52)"
    by (rule ulp64_normal) (simp_all add: powr_neg_numeral)
  then have u': "ulp64 0.05 = 1 / 2 ^ 57" by (simp add: powr_neg_numeral)
  have "round_even (0.05 / (1 / 2 ^ 57)) = 7205759403792794"
    by (rule round_even_near) simp_all
  then have "r = 7205759403792794 * (1 / 2 ^ 57)"
    using f64_value [OF r] unfolding u' by simp
  then show ?thesis using r by simp
qed

lemma f64_cap_product:
  "f64 (3602879701896397 / 2 ^ 56 * 1.5) = Some (5404319552844596 / 2 ^ 56)"
proof -
  define x :: real where "x = 3602879701896397 / 2 ^ 56 * 1.5"
  have x_small: "0 \<le> x" "x \<le> 2" by (simp_all add: x_def)
  obtain r where r: "f64 x = Some r"
    using f64_constant [OF x_small] by auto
  have u: "ulp64 x = 2 powr (of_int (- 4) - 52)"
    by (rule ulp64_normal) (simp_all add: x_def powr_neg_numeral)
  then have u': "ulp64 x = 1 / 2 ^ 56" by (simp add: powr_neg_numeral)
  have "x / (1 / 2 ^ 56) = of_int 5404319552844595 + 1 / 2" by (simp add: x_def)
  then have "round_even (x / (1 / 2 ^ 56)) = 5404319552844596"
    by (simp only: round_even_tie) simp
  then have "r = 5404319552844596 * (1 / 2 ^ 56)"
    using f64_value [OF r] unfolding u' by simp
  then show ?thesis using r unfolding x_def by simp
qed

lemma assetVolatility_range:
  "map_of assetVolatility s = Some v \<Longrightarrow> 0.01 \<le> v \<and> v \<le> 0.15"
  by (drule map_of_SomeD) (auto simp add: assetVolatility_def)

lemma lookup_volatility_range:
  assumes "ordinaryKey s"
  shows "\<exists>v. lookupOr assetVolatility s 0.05 = Some v \<and> 0.01 \<le> v \<and> v \<le> 0.15"
proof (cases "map_of assetVolatility s")
  case None
  then have "lookupOr assetVolatility s 0.05 = Some 0.05"
    using assms by (simp add: lookupOr_def)
  moreover have "(0.01::real) \<le> 0.05 \<and> (0.05::real) \<le> 0.15" by simp
  ultimately show ?thesis by blast
next
  case (Some v)
  then have range: "0.01 \<le> v \<and> v \<le> 0.15" by (rule assetVolatility_range)
  then have "v \<noteq> 0" by auto
  then have "lookupOr assetVolatility s 0.05 = Some v"
    using Some by (simp add: lookupOr_def)
  then show ?thesis using range by blast
qed

lemma sqrt_in_range:
  assumes "0 \<le> q" and "q \<le> 2 powr 1023"
  shows "sqrt q \<le> 2 powr 512"
proof -
  have "(2::real) powr 512 * 2 powr 512 = 2 powr (512 + 512)"
    by (simp only: powr_add)
  moreover have "(512::real) + 512 = 1024" by simp
  ultimately have "(2 powr 512)\<^sup>2 = (2::real) powr 1024"
    by (simp only: power2_eq_square)
  moreover have "(0::real) \<le> 2 powr 512" by (rule powr_ge_zero)
  ultimately have root: "sqrt (2 powr 1024) = (2::real) powr 512"
    by (rule real_sqrt_unique)
  have "(2::real) powr 1023 \<le> 2 powr 1024" by (intro powr_mono) simp_all
  then have "q \<le> 2 powr 1024" using assms(2) by linarith
  then have "sqrt q \<le> sqrt (2 powr 1024)" by (rule real_sqrt_le_mono)
  then show ?thesis by (simp only: root)
qed

lemma f64_coarseD:
  assumes "f64 x = Some r" and "0 \<le> x" and "x \<le> 2 powr 1023"
  shows "0 \<le> r \<and> 9999 / 10000 * x - 1 / 10000 \<le> r \<and> r \<le> 10001 / 10000 * x + 1 / 10000"
  using f64_coarse [OF assms(2,3)] assms(1) by auto

lemma f64_small:
  assumes "0 \<le> x" and "x \<le> 3"
  shows "\<exists>r. f64 x = Some r \<and> 0 \<le> r \<and> r \<le> x + 1 / 1000"
proof -
  have "x \<le> 2 powr 1023" using assms(2) pow2_1023_large by linarith
  then obtain r where "f64 x = Some r" and "0 \<le> r"
    and "r \<le> 10001 / 10000 * x + 1 / 10000"
    using f64_coarse [OF assms(1)] by blast
  moreover from this have "r \<le> x + 1 / 1000" using assms(2) by linarith
  ultimately show ?thesis by blast
qed

lemma slippage_chain:
  assumes lf: "lookupOr assetVolatility fromToken 0.05 = Some v1"
    and lt: "lookupOr assetVolatility toToken 0.05 = Some v2"
    and r1: "0 \<le> v1" "v1 \<le> 3 / 20" and r2: "0 \<le> v2" "v2 \<le> 3 / 20"
    and am: "0 \<le> amount" "amount < 2 powr 1024"
  shows "\<exists>a1 a2 a g c1 mm q af sl low cap.
      f64 v1 = Some a1 \<and> f64 v2 = Some a2 \<and> f64 (a1 + a2) = Some a \<and> 0 \<le> a1 + a2
    \<and> f64 (a / 2) = Some g \<and> 0 \<le> a
    \<and> f64 0.1 = Some c1 \<and> f64 (g * c1) = Some mm \<and> 0 \<le> g * c1 \<and> g * c1 \<le> 4
    \<and> f64 (amount / 10000) = Some q \<and> 0 \<le> q \<and> q \<le> 2 powr 1023
    \<and> f64 (sqrt q) = Some af
    \<and> f64 (mm * af) = Some sl \<and> 0 \<le> mm * af \<and> mm * af \<le> 2 powr 1023
    \<and> f64 0.001 = Some low \<and> f64 0.05 = Some cap
    \<and> calculateSlippage fromToken toToken amount = Some (min (max sl low) cap)"
proof -
  have "v1 \<le> 3" using r1 by linarith
  then obtain a1 where a1: "f64 v1 = Some a1" and a1_pos: "0 \<le> a1"
    and "a1 \<le> v1 + 1 / 1000"
    using f64_small [OF r1(1)] by blast
  then have a1_le: "a1 \<le> 1" using r1 by linarith
  have "v2 \<le> 3" using r2 by linarith
  then obtain a2 where a2: "f64 v2 = Some a2" and a2_pos: "0 \<le> a2"
    and "a2 \<le> v2 + 1 / 1000"
    using f64_small [OF r2(1)] by blast
  then have a2_le: "a2 \<le> 1" using r2 by linarith
  have s_pos: "0 \<le> a1 + a2" and s_le: "a1 + a2 \<le> 2"
    using a1_pos a2_pos a1_le a2_le by simp_all
  have "a1 + a2 \<le> 3" using s_le by linarith
  then obtain a where a: "f64 (a1 + a2) = Some a" and a_pos: "0 \<le> a"
    and "a \<le> a1 + a2 + 1 / 1000"
    using f64_small [OF s_pos] by blast
  then have a_le: "a \<le> 3" using s_le by linarith
  have h_pos: "0 \<le> a / 2" and h_le: "a / 2 \<le> 3 / 2" using a_pos a_le by simp_all
  have "a / 2 \<le> 3" using h_le by linarith
  then obtain g where g: "f64 (a / 2) = Some g" and g_pos: "0 \<le> g"
    and "g \<le> a / 2 + 1 / 1000"
    using f64_small [OF h_pos] by blast
  then have g_le: "g \<le> 2" using h_le by linarith
  obtain c1 where c1: "f64 0.1 = Some c1" and c1_pos: "0 \<le> c1"
    and "c1 \<le> 0.1 + 1 / 1000"
    using f64_small [of "0.1"] by auto
  then have c1_le: "c1 \<le> 1" by linarith
  have p_pos: "0 \<le> g * c1" using g_pos c1_pos by simp
  have "g * c1 \<le> 2 * 1" using g_le c1_le g_pos c1_pos by (intro mult_mono) simp_all
  then have p_le2: "g * c1 \<le> 3" and p_le: "g * c1 \<le> 4" by simp_all
  obtain mm where mm: "f64 (g * c1) = Some mm" and mm_pos: "0 \<le> mm"
    and "mm \<le> g * c1 + 1 / 1000"
    using f64_small [OF p_pos p_le2] by blast
  then have mm_le: "mm \<le> 5" using p_le2 by linarith
  have d_pos: "0 \<le> amount / 10000" using am(1) by simp
  have "(2::real) powr 1 * 2 powr 1023 = 2 powr (1 + 1023)" by (simp only: powr_add)
  moreover have "(1::real) + 1023 = 1024" by simp
  ultimately have "(2::real) powr 1024 = 2 powr 1 * 2 powr 1023" by (simp only:)
  then have double: "(2::real) powr 1024 = 2 * 2 powr 1023" by (simp only: powr_one)
  have "amount \<le> 2 * 2 powr 1023" using am(2) unfolding double by linarith
  then have d_le: "amount / 10000 \<le> 2 powr 1023 / 5000" by linarith
  have big: "(0::real) \<le> 2 powr 1023" by simp
  have d_in: "amount / 10000 \<le> 2 powr 1023" using d_le big by linarith
  obtain q where q: "f64 (amount / 10000) = Some q" and q_pos: "0 \<le> q"
    and "q \<le> 10001 / 10000 * (amount / 10000) + 1 / 10000"
    using f64_coarse [OF d_pos d_in] by blast
  then have q_le: "q \<le> 2 powr 1023"
    using d_le pow2_1023_large by linarith
  have root_pos: "0 \<le> sqrt q" using q_pos by simp
  have root_le: "sqrt q \<le> 2 powr 512" using q_pos q_le by (rule sqrt_in_range)
  have "(2::real) powr 512 \<le> 2 powr 1023" by (intro powr_mono) simp_all
  then have root_in: "sqrt q \<le> 2 powr 1023" using root_le by linarith
  have half: "(4::real) \<le> 2 powr 512"
  proof -
    have "(2::real) powr 2 \<le> 2 powr 512" by (intro powr_mono) simp_all
    then show ?thesis by simp
  qed
  obtain af where af: "f64 (sqrt q) = Some af" and af_pos: "0 \<le> af"
    and "af \<le> 10001 / 10000 * sqrt q + 1 / 10000"
    using f64_coarse [OF root_pos root_in] by blast
  then have af_le: "af \<le> 2 * 2 powr 512" using root_le half by linarith
  have m_pos: "0 \<le> mm * af" using mm_pos af_pos by simp
  have "mm * af \<le> 5 * (2 * 2 powr 512)"
    using mm_le af_le mm_pos af_pos by (intro mult_mono) simp_all
  also have "\<dots> \<le> 2 powr 4 * 2 powr 512" by simp
  also have "\<dots> = 2 powr 516" using powr_add [of "2::real" 4 512] by simp
  also have "\<dots> \<le> 2 powr 1023" by (intro powr_mono) simp_all
  finally have m_in: "mm * af \<le> 2 powr 1023" .
  obtain sl where sl: "f64 (mm * af) = Some sl"
    using f64_coarse [OF m_pos m_in] by blast
  obtain low where low: "f64 0.001 = Some low"
    using f64_small [of "0.001"] by auto
  obtain cap where cap: "f64 0.05 = Some cap"
    using f64_small [of "0.05"] by auto
  have e1: "Option.bind (lookupOr assetVolatility fromToken 0.05) f64 = Some a1"
    unfolding lf using a1 by simp
  have e2: "Option.bind (lookupOr assetVolatility toToken 0.05) f64 = Some a2"
    unfolding lt using a2 by simp
  have e3: "fl_div (fl_add (Some a1) (Some a2)) 2 = Some g"
    using a g by (simp add: fl_add_def fl_div_def)
  have e4: "fl_sqrt (fl_div (Some amount) 10000) = Some af"
    using q q_pos af by (simp add: fl_div_def fl_sqrt_def)
  have e5: "fl_mul (fl_mul (Some g) (f64 0.1)) (Some af) = Some sl"
    unfolding c1 using mm sl by (simp add: fl_mul_def)
  have e6: "fl_min (fl_max (Some sl) (f64 0.001)) (f64 0.05) = Some (min (max sl low) cap)"
    unfolding low cap by (simp add: fl_min_def fl_max_def)
  have "calculateSlippage fromToken toToken amount = Some (min (max sl low) cap)"
    unfolding calculateSlippage_def Let_def e1 e2 e3 e4 e5 e6 by (rule refl)
  then show ?thesis
    using a1 a2 a s_pos g a_pos c1 mm p_pos p_le q q_pos q_le af sl m_pos m_in low cap
    by blast
qed

lemma slippage_clamped:
  assumes "ordinaryKey fromToken" and "ordinaryKey toToken"
    and "0 \<le> amount" and "amount < 2 powr 1024"
  shows "\<exists>s low cap. calculateSlippage fromToken toToken amount = Some s
      \<and> f64 0.001 = Some low \<and> f64 0.05 = Some cap \<and> low \<le> s \<and> s \<le> cap"
proof -
  obtain v1 where v1: "lookupOr assetVolatility fromToken 0.05 = Some v1"
    and "0.01 \<le> v1" and "v1 \<le> 0.15"
    using lookup_volatility_range [OF assms(1)] by blast
  then have r1: "0 \<le> v1" "v1 \<le> 3 / 20" by simp_all
  obtain v2 where v2: "lookupOr assetVolatility toToken 0.05 = Some v2"
    and "0.01 \<le> v2" and "v2 \<le> 0.15"
    using lookup_volatility_range [OF assms(2)] by blast
  then have r2: "0 \<le> v2" "v2 \<le> 3 / 20" by simp_all
  obtain sl low cap where low: "f64 0.001 = Some low" and cap: "f64 0.05 = Some cap"
    and s: "calculateSlippage fromToken toToken amount = Some (min (max sl low) cap)"
    using slippage_chain [OF v1 v2 r1 r2 assms(3,4)] by blast
  have "low \<le> 1 / 100"
    using f64_coarseD [OF low] pow2_1023_large by simp
  moreover have "1 / 100 \<le> cap"
    using f64_coarseD [OF cap] pow2_1023_large by simp
  ultimately have "low \<le> cap" by linarith
  then have "low \<le> min (max sl low) cap" and "min (max sl low) cap \<le> cap" by simp_all
  then show ?thesis using s low cap by blast
qed

lemma f64_lower:
  assumes "f64 x = Some r" and "b \<le> x" and "0 \<le> b" and "x \<le> 2 powr 1023"
  shows "9999 / 10000 * b - 1 / 10000 \<le> r"
proof -
  have "0 \<le> x" using assms(2,3) by linarith
  then have "9999 / 10000 * x - 1 / 10000 \<le> r"
    using f64_coarseD [OF assms(1) _ assms(4)] by blast
  moreover have "9999 / 10000 * b \<le> 9999 / 10000 * x"
    using assms(2) by (intro mult_left_mono) simp_all
  ultimately show ?thesis by linarith
qed

lemma slippage_capped:
  "calculateSlippage ''xGOLD'' ''xGOLD'' 1000000 = Some (3602879701896397 / 2 ^ 56)"
proof -
  have v: "lookupOr assetVolatility ''xGOLD'' 0.05 = Some 0.15"
    by (simp add: lookupOr_def assetVolatility_def)
  have r: "(0::real) \<le> 0.15" "(0.15::real) \<le> 3 / 20" by simp_all
  have am: "(0::real) \<le> 1000000" by simp
  have "(1000000::real) \<le> 2 powr 20" by simp
  also have "\<dots> \<le> 2 powr 1023" by (intro powr_mono) simp_all
  also have "\<dots> < 2 powr 1024" by (intro powr_less_mono) simp_all
  finally have am': "(1000000::real) < 2 powr 1024" .
  obtain a1 a2 a g c1 mm q af sl low cap where
        a1: "f64 0.15 = Some a1" and a2: "f64 0.15 = Some a2"
    and a: "f64 (a1 + a2) = Some a" and s_pos: "0 \<le> a1 + a2"
    and g: "f64 (a / 2) = Some g" and a_pos: "0 \<le> a"
    and c1: "f64 0.1 = Some c1" and mm: "f64 (g * c1) = Some mm"
    and p_pos: "0 \<le> g * c1" and p_le: "g * c1 \<le> 4"
    and q: "f64 (1000000 / 10000) = Some q" and q_pos: "0 \<le> q" and q_le: "q \<le> 2 powr 1023"
    and af: "f64 (sqrt q) = Some af"
    and sl: "f64 (mm * af) = Some sl" and m_pos: "0 \<le> mm * af" and m_in: "mm * af \<le> 2 powr 1023"
    and low: "f64 0.001 = Some low" and cap: "f64 0.05 = Some cap"
    and s: "calculateSlippage ''xGOLD'' ''xGOLD'' 1000000 = Some (min (max sl low) cap)"
    using slippage_chain [OF v v r r am am'] by blast
  have big: "(4::real) \<le> 2 powr 1023" by (rule pow2_1023_large)
  have a1_lo: "14 / 100 \<le> a1" using f64_coarseD [OF a1] big by simp
  have a2_lo: "14 / 100 \<le> a2" using f64_coarseD [OF a2] big by simp
  have a1_hi: "a1 \<le> 1" using f64_coarseD [OF a1] big by simp
  have a2_hi: "a2 \<le> 1" using f64_coarseD [OF a2] big by simp
  have s_in: "a1 + a2 \<le> 2 powr 1023" using a1_hi a2_hi big by linarith
  have s_lo: "28 / 100 \<le> a1 + a2" using a1_lo a2_lo by linarith
  have "9999 / 10000 * (28 / 100) - 1 / 10000 \<le> a"
    using f64_lower [OF a s_lo _ s_in] by simp
  then have a_lo: "27 / 100 \<le> a" by simp
  have "a \<le> 10001 / 10000 * (a1 + a2) + 1 / 10000"
    using f64_coarseD [OF a s_pos s_in] by blast
  then have "a \<le> 10001 / 10000 * a1 + 10001 / 10000 * a2 + 1 / 10000"
    by (simp only: distrib_left)
  then have a_hi: "a \<le> 3" using a1_hi a2_hi by linarith
  have h_pos: "0 \<le> a / 2" using a_pos by simp
  have h_in: "a / 2 \<le> 2 powr 1023" using a_hi big by linarith
  have h_lo: "27 / 200 \<le> a / 2" using a_lo by simp
  have "9999 / 10000 * (27 / 200) - 1 / 10000 \<le> g"
    using f64_lower [OF g h_lo _ h_in] by simp
  then have g_lo: "13 / 100 \<le> g" by simp
  have c1_lo: "9 / 100 \<le> c1" using f64_coarseD [OF c1] big by simp
  have "13 / 100 * (9 / 100) \<le> g * c1"
    using g_lo c1_lo by (intro mult_mono) simp_all
  then have p_lo: "117 / 10000 \<le> g * c1" by simp
  have p_in: "g * c1 \<le> 2 powr 1023" using p_le big by linarith
  have "9999 / 10000 * (117 / 10000) - 1 / 10000 \<le> mm"
    using f64_lower [OF mm p_lo _ p_in] by simp
  then have mm_lo: "1 / 100 \<le> mm" by simp
  have "9999 / 10000 * (1000000 / 10000) - 1 / 10000 \<le> q"
    using f64_coarseD [OF q] big by simp
  then have q_lo: "81 \<le> q" by simp
  have "sqrt 81 \<le> sqrt q" using q_lo by (rule real_sqrt_le_mono)
  moreover have "sqrt 81 = 9" by (rule real_sqrt_unique) simp_all
  ultimately have root_lo: "9 \<le> sqrt q" by simp
  have root_le: "sqrt q \<le> 2 powr 512" using q_pos q_le by (rule sqrt_in_range)
  have "(2::real) powr 512 \<le> 2 powr 1023" by (intro powr_mono) simp_all
  then have root_in: "sqrt q \<le> 2 powr 1023" using root_le by linarith
  have root_pos: "0 \<le> sqrt q" using q_pos by simp
  have "9999 / 10000 * 9 - 1 / 10000 \<le> af"
    using f64_lower [OF af root_lo _ root_in] by simp
  then have af_lo: "8 \<le> af" by simp
  have "1 / 100 * 8 \<le> mm * af"
    using mm_lo af_lo by (intro mult_mono) simp_all
  then have m_lo: "8 / 100 \<le> mm * af" by simp
  have "9999 / 10000 * (8 / 100) - 1 / 10000 \<le> sl"
    using f64_lower [OF sl m_lo _ m_in] by simp
  then have sl_lo: "7 / 100 \<le> sl" by simp
  have "cap \<le> 6 / 100"
    using f64_coarseD [OF cap] big by simp
  then have "cap \<le> sl" using sl_lo by linarith
  then have "min (max sl low) cap = cap" by simp
  moreover have "cap = 3602879701896397 / 2 ^ 56"
    using cap f64_literal_005 by simp
  ultimately show ?thesis using s by simp
qed

lemma tolerance_capped:
  "calculateSlippageTolerance ''xGOLD'' ''xGOLD'' 1000000 = Some (5404319552844596 / 2 ^ 56)"
  unfolding calculateSlippageTolerance_def Let_def slippage_capped fl_mul_def
  using f64_cap_product by simp

lemma tolerance_inherited:
  "calculateSlippageTolerance ''constructor'' ''USDC'' 100 = None"
  by (simp add: calculateSlippageTolerance_def calculateSlippage_def lookupOr_def
      assetVolatility_def ordinaryKey_def objectPrototypeKeys_def fl_add_def fl_div_def
      fl_mul_def fl_max_def fl_min_def Let_def)

lemma round_even_le_int: "y \<le> of_int N \<Longrightarrow> round_even y \<le> N"
proof -
  assume h: "y \<le> of_int N"
  show ?thesis
  proof (cases "y = of_int N")
    case True
    then show ?thesis by (simp add: round_even_def Let_def)
  next
    case False
    then have "y < of_int N" using h by simp
    then have "\<lfloor>y\<rfloor> < N" by (simp add: floor_less_iff)
    moreover have "round_even y \<le> \<lfloor>y\<rfloor> + 1" by (simp add: round_even_def Let_def)
    ultimately show ?thesis by linarith
  qed
qed

lemma round_even_ge_int: "of_int N \<le> y \<Longrightarrow> N \<le> round_even y"
proof -
  assume "of_int N \<le> y"
  then have "N \<le> \<lfloor>y\<rfloor>" by (simp add: le_floor_iff)
  moreover have "\<lfloor>y\<rfloor> \<le> round_even y" by (simp add: round_even_def Let_def)
  ultimately show ?thesis by linarith
qed

lemma ulp64_below_eighth:
  assumes "0 \<le> x" and "x < 1 / 8"
  shows "\<exists>j::nat. ulp64 x = 1 / (2 ^ 56 * 2 ^ j)"
proof (cases "x < 2 powr (- 1022)")
  case True
  then have "ulp64 x = 2 powr (- 1074)" using assms(1) by (simp add: ulp64_def)
  also have "\<dots> = 2 powr (- 56) * 2 powr (- 1018)"
    using powr_add [of "2::real" "- 56" "- 1018"] by simp
  also have "\<dots> = 1 / (2 ^ 56 * 2 ^ 1018)"
    by (simp only: powr_neg_numeral) (simp add: field_simps)
  finally show ?thesis by blast
next
  case False
  have low_pos: "(0::real) < 2 powr (- 1022)" by simp
  then have x_pos: "0 < x" using False by linarith
  define e where "e = \<lfloor>log 2 x\<rfloor>"
  have "x < 2 powr (- 3)" using assms(2) by (simp add: powr_neg_numeral)
  then have "log 2 x < - 3" using x_pos by (simp add: log_less_iff)
  then have e_le: "e \<le> - 4" unfolding e_def by linarith
  define j where "j = nat (- 4 - e)"
  have j: "of_int e = - 4 - real j" using e_le by (simp add: j_def)
  have "ulp64 x = 2 powr (of_int e - 52)"
    using False x_pos by (simp add: ulp64_def e_def)
  also have "of_int e - 52 = - 56 + (- real j)" using j by simp
  also have "2 powr (- 56 + (- real j)) = 2 powr (- 56) * 2 powr (- real j)"
    by (simp only: powr_add)
  also have "2 powr (- real j) = 1 / 2 ^ j"
    by (simp add: powr_minus powr_realpow field_simps)
  also have "2 powr (- 56) * (1 / 2 ^ j) = 1 / (2 ^ 56 * 2 ^ j :: real)"
    by (simp only: powr_neg_numeral) (simp add: field_simps)
  finally show ?thesis by blast
qed

lemma f64_below_cap_product:
  assumes "f64 x = Some t" and "0 \<le> x" and "x \<le> 5404319552844596 / 2 ^ 56"
  shows "t \<le> 5404319552844596 / 2 ^ 56"
proof -
  have "x < 1 / 8" using assms(3) by simp
  then obtain j :: nat where u: "ulp64 x = 1 / (2 ^ 56 * 2 ^ j)"
    using ulp64_below_eighth [OF assms(2)] by blast
  define N :: int where "N = 5404319552844596 * 2 ^ j"
  define p :: real where "p = 2 ^ 56 * 2 ^ j"
  have p_pos: "0 < p" by (simp add: p_def)
  have u': "ulp64 x = 1 / p" using u by (simp add: p_def)
  have "x * p \<le> 5404319552844596 / 2 ^ 56 * p"
    using assms(3) p_pos by (intro mult_right_mono) simp_all
  also have "\<dots> = of_int N" by (simp add: p_def N_def)
  finally have "x / ulp64 x \<le> of_int N" by (simp add: u')
  then have "round_even (x / ulp64 x) \<le> N" by (rule round_even_le_int)
  then have "(of_int (round_even (x / ulp64 x)) :: real) \<le> of_int N" by simp
  then have le: "of_int (round_even (x / ulp64 x)) * (1 / p) \<le> of_int N * (1 / p)"
    using p_pos by (intro mult_right_mono) simp_all
  have eq: "of_int N * (1 / p) = 5404319552844596 / 2 ^ 56"
    by (simp add: p_def N_def)
  have "t = of_int (round_even (x / ulp64 x)) * (1 / p)"
    using f64_value [OF assms(1)] by (simp only: u')
  then show ?thesis using le unfolding eq by (simp only:)
qed

lemma f64_literal_0001: "f64 0.001 = Some (4611686018427388 / 2 ^ 62)"
proof -
  obtain r where r: "f64 0.001 = Some r"
    using f64_constant [of "0.001"] by auto
  have u: "ulp64 0.001 = 2 powr (of_int (- 10) - 52)"
    by (rule ulp64_normal) (simp_all add: powr_neg_numeral)
  then have u': "ulp64 0.001 = 1 / 2 ^ 62" by (simp add: powr_neg_numeral)
  have "round_even (0.001 / (1 / 2 ^ 62)) = 4611686018427388"
    by (rule round_even_near) simp_all
  then have "r = 4611686018427388 * (1 / 2 ^ 62)"
    using f64_value [OF r] unfolding u' by simp
  then show ?thesis using r by simp
qed

lemma f64_above_floor_product:
  assumes "f64 x = Some t" and "6917529027641082 / 2 ^ 62 \<le> x" and "x \<le> 2 powr 1023"
  shows "6917529027641082 / 2 ^ 62 \<le> t"
proof (cases "x < 1 / 512")
  case True
  have "2 powr (of_int (- 10)) \<le> x"
    using assms(2) by (simp add: powr_neg_numeral)
  moreover have "x < 2 powr (of_int (- 10) + 1)"
    using True by (simp add: powr_neg_numeral)
  ultimately have "ulp64 x = 2 powr (of_int (- 10) - 52)"
    by (rule ulp64_normal) simp
  then have u': "ulp64 x = 1 / 2 ^ 62" by (simp add: powr_neg_numeral)
  have "6917529027641082 / 2 ^ 62 * 2 ^ 62 \<le> x * 2 ^ 62"
    using assms(2) by (intro mult_right_mono) simp_all
  then have "of_int 6917529027641082 \<le> x / ulp64 x" by (simp add: u')
  then have "6917529027641082 \<le> round_even (x / ulp64 x)" by (rule round_even_ge_int)
  then have "(of_int 6917529027641082 :: real) \<le> of_int (round_even (x / ulp64 x))"
    by (simp only: of_int_le_iff)
  then have le: "of_int 6917529027641082 * (1 / 2 ^ 62)
      \<le> (of_int (round_even (x / ulp64 x)) :: real) * (1 / 2 ^ 62)"
    by (intro mult_right_mono) simp_all
  have eq: "(of_int 6917529027641082 :: real) * (1 / 2 ^ 62) = 6917529027641082 / 2 ^ 62"
    by simp
  have "t = of_int (round_even (x / ulp64 x)) * (1 / 2 ^ 62)"
    using f64_value [OF assms(1)] by (simp only: u')
  then show ?thesis using le unfolding eq by (simp only:)
next
  case False
  then have h: "1 / 512 \<le> x" by simp
  have "9999 / 10000 * (1 / 512) - 1 / 10000 \<le> t"
    using f64_lower [OF assms(1) h _ assms(3)] by simp
  then show ?thesis by simp
qed

lemma tolerance_interval:
  assumes "ordinaryKey fromToken" and "ordinaryKey toToken"
    and "0 \<le> amount" and "amount < 2 powr 1024"
  shows "\<exists>s t low cap. calculateSlippage fromToken toToken amount = Some s
      \<and> f64 0.001 = Some low \<and> f64 0.05 = Some cap \<and> low \<le> s \<and> s \<le> cap
      \<and> calculateSlippageTolerance fromToken toToken amount = Some t
      \<and> f64 (s * 1.5) = Some t
      \<and> 0.0015 \<le> t \<and> t \<le> 5404319552844596 / 2 ^ 56"
proof -
  have big: "(4::real) \<le> 2 powr 1023" by (rule pow2_1023_large)
  obtain s low cap where s: "calculateSlippage fromToken toToken amount = Some s"
    and low: "f64 0.001 = Some low" and cap: "f64 0.05 = Some cap"
    and low_s: "low \<le> s" and s_cap: "s \<le> cap"
    using slippage_clamped [OF assms] by blast
  have low_eq: "low = 4611686018427388 / 2 ^ 62" using low f64_literal_0001 by simp
  have cap_eq: "cap = 3602879701896397 / 2 ^ 56" using cap f64_literal_005 by simp
  have s_lo: "4611686018427388 / 2 ^ 62 \<le> s" using low_s unfolding low_eq .
  have s_hi: "s \<le> 3602879701896397 / 2 ^ 56" using s_cap unfolding cap_eq .
  have "4611686018427388 / 2 ^ 62 * (3 / 2) \<le> s * (3 / 2)"
    using s_lo by (intro mult_right_mono) simp_all
  then have x_lo: "6917529027641082 / 2 ^ 62 \<le> s * (3 / 2)" by simp
  have "s * (3 / 2) \<le> 3602879701896397 / 2 ^ 56 * (3 / 2)"
    using s_hi by (intro mult_right_mono) simp_all
  then have x_hi: "s * (3 / 2) \<le> 5404319552844596 / 2 ^ 56" by simp
  have x_pos: "0 \<le> s * (3 / 2)" using x_lo by simp
  have x_in: "s * (3 / 2) \<le> 2 powr 1023" using x_hi big by simp
  obtain t where t: "f64 (s * (3 / 2)) = Some t"
    using f64_coarse [OF x_pos x_in] by blast
  have upper: "t \<le> 5404319552844596 / 2 ^ 56"
    using t x_pos x_hi by (rule f64_below_cap_product)
  have "6917529027641082 / 2 ^ 62 \<le> t"
    using t x_lo x_in by (rule f64_above_floor_product)
  then have lower: "0.0015 \<le> t" by simp
  have t': "f64 (s * 1.5) = Some t" using t by simp
  have "calculateSlippageTolerance fromToken toToken amount = Some t"
    unfolding calculateSlippageTolerance_def Let_def s fl_mul_def using t' by simp
  then show ?thesis using s low cap low_s s_cap t' lower upper by blast
qed

section \<open>Risk analyzer\<close>

text \<open>
  C1. The percentages of \<open>riskExposure\<close> are meant to sum to 100 for a portfolio with a
  positive total value and an asset of positive volatility. \<open>calculateRiskExposure\<close> starts
  each contribution at \<open>weight * assetVolatility\<close> and divides by the portfolio volatility,
  not by the variance, so the sum is not 100: for 50 USD of USDC and 50 USD of xGOLD the
  two percentages are \<open>0.50375 / sqrt 0.005725\<close> and \<open>7.50375 / sqrt 0.005725\<close>, and their
  sum is above 105.
\<close>

theorem riskExposure_sum_exceeds_100:
  "totalValue (calculateRiskMetrics
       [\<lparr>symbol = ''USDC'', balance = 50, usdValue = 50\<rparr>,
        \<lparr>symbol = ''xGOLD'', balance = 1, usdValue = 50\<rparr>]) = 100
   \<and> exposureTotal (riskExposure (calculateRiskMetrics
       [\<lparr>symbol = ''USDC'', balance = 50, usdValue = 50\<rparr>,
        \<lparr>symbol = ''xGOLD'', balance = 1, usdValue = 50\<rparr>]))
     = Some (0.0050375 / sqrt 0.005725 * 100 + (0.0750375 / sqrt 0.005725 * 100 + 0))
   \<and> 105 < 0.0050375 / sqrt 0.005725 * 100 + (0.0750375 / sqrt 0.005725 * 100 + 0)"
proof -
  let ?p = "[\<lparr>symbol = ''USDC'', balance = 50, usdValue = 50\<rparr>,
             \<lparr>symbol = ''xGOLD'', balance = 1, usdValue = 50\<rparr>]"
  define v :: real where "v = sqrt 0.005725"
  have v_pos: "0 < v" and v_less: "v < 0.076"
    unfolding v_def by (rule sqrt_bounds)+
  have total: "foldl (\<lambda>sum asset. sum + usdValue asset) 0 ?p = 100" by simp
  have vol: "calculatePortfolioVolatility [(''USDC'', 1 / 2), (''xGOLD'', 1 / 2)] = Some v"
    unfolding v_def by (rule volatility_two)
  have e1: "assetExposure ?p [(''USDC'', 1 / 2), (''xGOLD'', 1 / 2)] (Some v)
              \<lparr>symbol = ''USDC'', balance = 50, usdValue = 50\<rparr>
            = Some (0.0050375 / v * 100)"
    using v_pos by (simp add: assetExposure_def vol_USDC vol_xGOLD corr_USDC_xGOLD js_div_def)
  have e2: "assetExposure ?p [(''USDC'', 1 / 2), (''xGOLD'', 1 / 2)] (Some v)
              \<lparr>symbol = ''xGOLD'', balance = 1, usdValue = 50\<rparr>
            = Some (0.0750375 / v * 100)"
    using v_pos by (simp add: assetExposure_def vol_USDC vol_xGOLD corr_xGOLD_USDC js_div_def)
  have expo: "calculateRiskExposure ?p [(''USDC'', 1 / 2), (''xGOLD'', 1 / 2)] (Some v)
            = [(''USDC'', Some (0.0050375 / v * 100)), (''xGOLD'', Some (0.0750375 / v * 100))]"
    unfolding calculateRiskExposure_def foldl_Cons foldl_Nil e1 e2 by simp
  have metrics_expo: "riskExposure (calculateRiskMetrics ?p)
            = [(''USDC'', Some (0.0050375 / v * 100)), (''xGOLD'', Some (0.0750375 / v * 100))]"
    unfolding calculateRiskMetrics_def Let_def total weights_two vol expo by simp
  have sum_eq: "0.0050375 / v * 100 + (0.0750375 / v * 100 + 0) = 8.0075 / v"
    by (simp add: field_simps)
  have "105 * v < 105 * 0.076"
    using v_less by simp
  also have "\<dots> < (8.0075 :: real)" by simp
  finally have "105 < 8.0075 / v"
    using v_pos by (simp add: pos_less_divide_eq)
  then have big: "105 < 0.0050375 / v * 100 + (0.0750375 / v * 100 + 0)"
    by (simp only: sum_eq)
  have tot: "exposureTotal (riskExposure (calculateRiskMetrics ?p))
               = Some (0.0050375 / v * 100 + (0.0750375 / v * 100 + 0))"
    unfolding metrics_expo by simp
  show ?thesis
    using total_two tot big unfolding v_def by blast
qed

text \<open>
  C9, as stated, fails when two entries of the portfolio carry the same symbol: \<open>weights\<close> is
  keyed by symbol, so the later entry overwrites the earlier one. With 100 USD of USDC
  followed by a USDC entry worth 0, the only weight is 0, the volatility is 0, and the
  Sharpe ratio is a division by zero.
\<close>

theorem volatility_zero_duplicate_symbol:
  "calculateRiskMetrics
     [\<lparr>symbol = ''USDC'', balance = 100, usdValue = 100\<rparr>,
      \<lparr>symbol = ''USDC'', balance = 0, usdValue = 0\<rparr>]
   = \<lparr>totalValue = 100, volatility = Some 0, sharpeRatio = None, maxDrawdown = Some 0,
      valueAtRisk = Some 0, riskExposure = [(''USDC'', None)]\<rparr>"
  by (simp add: calculateRiskMetrics_def portfolioWeights_def calculatePortfolioVolatility_def
      js_sqrt_def js_div_def calculateExpectedReturn_def calculateRiskExposure_def
      assetExposure_def Let_def vol_USDC lookupOr_def expectedReturns_def)

text \<open>
  C9, amended. For every portfolio whose symbols are pairwise distinct and are not names
  of members of \<open>Object.prototype\<close>, whose USD values are all at least 0 and whose total
  value is positive and at most \<open>10^308\<close> (so that the sum does not overflow to an
  infinity), the portfolio volatility is a positive number and the Sharpe ratio is not a
  division by zero. For such symbols every volatility lookup is at least 0.01, it is 0.05
  for an unlisted asset, and every correlation is non-negative.
\<close>

theorem volatility_positive_distinct:
  assumes distinct_symbols: "distinct (map symbol portfolio)"
    and ordinary: "\<forall>asset \<in> set portfolio. ordinaryKey (symbol asset)"
    and nonneg: "\<forall>asset \<in> set portfolio. 0 \<le> usdValue asset"
    and total_pos: "0 < totalValue (calculateRiskMetrics portfolio)"
    and total_finite: "totalValue (calculateRiskMetrics portfolio) \<le> 10 ^ 308"
  shows "(\<exists>v. volatility (calculateRiskMetrics portfolio) = Some v \<and> 0 < v)
       \<and> sharpeRatio (calculateRiskMetrics portfolio) \<noteq> None
       \<and> (ordinaryKey s \<longrightarrow> (\<exists>v. volatilityOf s = Some v \<and> 0.01 \<le> v))
       \<and> (ordinaryKey s \<and> map_of assetVolatility s = None \<longrightarrow> volatilityOf s = Some 0.05)
       \<and> (ordinaryKey a \<and> ordinaryKey b \<longrightarrow> 0 \<le> getCorrelation a b)"
proof -
  define t where "t = foldl (\<lambda>sum asset. sum + usdValue asset) 0 portfolio"
  define ws where "ws = portfolioWeights portfolio t"
  have t_total: "totalValue (calculateRiskMetrics portfolio) = t"
    by (simp add: calculateRiskMetrics_def Let_def t_def getEmptyRiskMetrics_def)
  have t_pos: "0 < t" using total_pos t_total by simp
  have t_sum: "t = sum_list (map usdValue portfolio)"
    by (simp add: t_def totalValue_sum)
  have ws_eq: "ws = map (\<lambda>asset. (symbol asset, usdValue asset / t)) portfolio"
    unfolding ws_def using distinct_symbols ordinary by (rule portfolioWeights_distinct)
  have ws_ok: "\<forall>(k, w) \<in> set ws. 0 \<le> w \<and> ordinaryKey k"
    using nonneg ordinary t_pos by (auto simp add: ws_eq)
  have ws_keys: "\<forall>(k, w) \<in> set ws. ordinaryKey k"
    using ws_ok by auto
  have "\<exists>x \<in> set (map usdValue portfolio). 0 < x"
    using nonneg t_pos t_sum by (intro positive_summand) auto
  then obtain asset where "asset \<in> set portfolio" and "0 < usdValue asset"
    by auto
  then have "(symbol asset, usdValue asset / t) \<in> set ws \<and> 0 < usdValue asset / t"
    using t_pos by (auto simp add: ws_eq)
  then have ws_pos: "\<exists>(k, w) \<in> set ws. 0 < w"
    by blast
  obtain var where var: "varianceLoop ws (Some 0) = Some var" and var_pos: "0 < var"
    using varianceLoop_strict [OF ws_ok ws_pos, of 0] by blast
  have vol: "calculatePortfolioVolatility ws = Some (sqrt var)"
    using var var_pos by (simp add: calculatePortfolioVolatility_def js_sqrt_def)
  have root_pos: "0 < sqrt var"
    using var_pos by simp
  obtain ret where ret: "calculateExpectedReturn ws = Some ret"
    unfolding calculateExpectedReturn_def
    using expectedReturn_defined [OF ws_keys, where table = expectedReturns and d = "0.03" and acc = 0]
    by blast
  have metrics_vol: "volatility (calculateRiskMetrics portfolio) = Some (sqrt var)"
    using t_pos vol
    by (simp add: calculateRiskMetrics_def Let_def t_def [symmetric] ws_def [symmetric])
  have c1: "\<exists>v. volatility (calculateRiskMetrics portfolio) = Some v \<and> 0 < v"
    using metrics_vol root_pos by simp
  have c2: "sharpeRatio (calculateRiskMetrics portfolio) \<noteq> None"
    using t_pos vol ret root_pos
    by (simp add: calculateRiskMetrics_def Let_def t_def [symmetric] ws_def [symmetric] js_div_def)
  have c3: "ordinaryKey s \<longrightarrow> (\<exists>v. volatilityOf s = Some v \<and> 0.01 \<le> v)"
    using volatilityOf_ordinary by blast
  have c4: "ordinaryKey s \<and> map_of assetVolatility s = None \<longrightarrow> volatilityOf s = Some 0.05"
    using volatilityOf_unlisted by blast
  have c5: "ordinaryKey a \<and> ordinaryKey b \<longrightarrow> 0 \<le> getCorrelation a b"
    using getCorrelation_pos [of a b] by simp
  show ?thesis
    using c1 c2 c3 c4 c5 by blast
qed

theorem volatility_positive_distinct_witness:
  "distinct (map symbol
       [\<lparr>symbol = ''USDC'', balance = 50, usdValue = 50\<rparr>,
        \<lparr>symbol = ''xGOLD'', balance = 1, usdValue = 50\<rparr>])
   \<and> ordinaryKey ''USDC'' \<and> ordinaryKey ''xGOLD''
   \<and> 0 \<le> usdValue \<lparr>symbol = ''USDC'', balance = 50, usdValue = 50\<rparr>
   \<and> 0 \<le> usdValue \<lparr>symbol = ''xGOLD'', balance = 1, usdValue = 50\<rparr>
   \<and> 0 < totalValue (calculateRiskMetrics
       [\<lparr>symbol = ''USDC'', balance = 50, usdValue = 50\<rparr>,
        \<lparr>symbol = ''xGOLD'', balance = 1, usdValue = 50\<rparr>])
   \<and> totalValue (calculateRiskMetrics
       [\<lparr>symbol = ''USDC'', balance = 50, usdValue = 50\<rparr>,
        \<lparr>symbol = ''xGOLD'', balance = 1, usdValue = 50\<rparr>]) \<le> 10 ^ 308
   \<and> (\<exists>v. volatility (calculateRiskMetrics
       [\<lparr>symbol = ''USDC'', balance = 50, usdValue = 50\<rparr>,
        \<lparr>symbol = ''xGOLD'', balance = 1, usdValue = 50\<rparr>]) = Some v \<and> 0 < v)
   \<and> sharpeRatio (calculateRiskMetrics
       [\<lparr>symbol = ''USDC'', balance = 50, usdValue = 50\<rparr>,
        \<lparr>symbol = ''xGOLD'', balance = 1, usdValue = 50\<rparr>]) \<noteq> None
   \<and> (\<exists>v. volatilityOf ''USDC'' = Some v \<and> 0.01 \<le> v)
   \<and> 0 \<le> getCorrelation ''USDC'' ''xGOLD''"
proof -
  let ?p = "[\<lparr>symbol = ''USDC'', balance = 50, usdValue = 50\<rparr>,
             \<lparr>symbol = ''xGOLD'', balance = 1, usdValue = 50\<rparr>]"
  have k1: "ordinaryKey ''USDC''" and k2: "ordinaryKey ''xGOLD''"
    by (simp_all add: ordinaryKey_def objectPrototypeKeys_def)
  have h1: "distinct (map symbol ?p)" by simp
  have h2: "\<forall>asset \<in> set ?p. ordinaryKey (symbol asset)" using k1 k2 by simp
  have h3: "\<forall>asset \<in> set ?p. 0 \<le> usdValue asset" by simp
  have h4: "0 < totalValue (calculateRiskMetrics ?p)" by (simp only: total_two)
  have h5: "totalValue (calculateRiskMetrics ?p) \<le> 10 ^ 308" by (simp only: total_two) simp
  have v1: "0 \<le> usdValue \<lparr>symbol = ''USDC'', balance = 50, usdValue = 50\<rparr>" by simp
  have v2: "0 \<le> usdValue \<lparr>symbol = ''xGOLD'', balance = 1, usdValue = 50\<rparr>" by simp
  show ?thesis
    using h1 k1 k2 v1 v2 h4 h5
      volatility_positive_distinct [OF h1 h2 h3 h4 h5, of "''USDC''" "''USDC''" "''xGOLD''"]
    by blast
qed

section \<open>Slippage estimator\<close>

text \<open>
  C10, as stated, fails twice. For a token whose symbol is the name of a member of
  \<open>Object.prototype\<close> the volatility lookup yields a function and the recommended
  tolerance is \<open>NaN\<close>, which lies in no interval. And for a trade whose estimate is capped,
  one million of xGOLD into xGOLD, the tolerance is the binary64 product of the doubles
  0.05 and 1.5, which is 0.07500000000000001 and lies above 0.075.
\<close>

theorem slippageTolerance_outside_interval:
  "calculateSlippageTolerance ''constructor'' ''USDC'' 100 = None
   \<and> calculateSlippageTolerance ''xGOLD'' ''xGOLD'' 1000000 = Some (5404319552844596 / 2 ^ 56)
   \<and> (0.075::real) < 5404319552844596 / 2 ^ 56"
proof -
  have "(0.075::real) < 5404319552844596 / 2 ^ 56" by simp
  then show ?thesis using tolerance_inherited tolerance_capped by blast
qed

text \<open>
  C10, amended. For every pair of tokens whose symbols are not names of members of
  \<open>Object.prototype\<close> and every finite amount of at least 0, \<open>calculateSlippage\<close> returns
  an estimate between the doubles nearest to 0.001 and to 0.05, and
  \<open>calculateSlippageTolerance\<close> returns the binary64 product of that estimate and 1.5,
  which lies between 0.0015 and 0.07500000000000001, the double \<open>5404319552844596 / 2\<^sup>5\<^sup>6\<close>
  that a capped trade returns. The tolerance can exceed 0.05: it does for one million of
  xGOLD into xGOLD.
\<close>

theorem slippageTolerance_binary64:
  assumes "ordinaryKey fromToken" and "ordinaryKey toToken"
    and "0 \<le> amount" and "amount < 2 powr 1024"
  shows "(\<exists>s t low cap. calculateSlippage fromToken toToken amount = Some s
          \<and> f64 0.001 = Some low \<and> f64 0.05 = Some cap \<and> low \<le> s \<and> s \<le> cap
          \<and> calculateSlippageTolerance fromToken toToken amount = Some t
          \<and> f64 (s * 1.5) = Some t
          \<and> 0.0015 \<le> t \<and> t \<le> 5404319552844596 / 2 ^ 56)
       \<and> (\<exists>t. calculateSlippageTolerance ''xGOLD'' ''xGOLD'' 1000000 = Some t \<and> 0.05 < t)"
proof
  show "\<exists>s t low cap. calculateSlippage fromToken toToken amount = Some s
          \<and> f64 0.001 = Some low \<and> f64 0.05 = Some cap \<and> low \<le> s \<and> s \<le> cap
          \<and> calculateSlippageTolerance fromToken toToken amount = Some t
          \<and> f64 (s * 1.5) = Some t
          \<and> 0.0015 \<le> t \<and> t \<le> 5404319552844596 / 2 ^ 56"
    using assms by (rule tolerance_interval)
next
  have "(0.05::real) < 5404319552844596 / 2 ^ 56" by simp
  then show "\<exists>t. calculateSlippageTolerance ''xGOLD'' ''xGOLD'' 1000000 = Some t \<and> 0.05 < t"
    using tolerance_capped by blast
qed

theorem slippageTolerance_binary64_witness:
  "ordinaryKey ''USDC'' \<and> ordinaryKey ''xGOLD'' \<and> (0::real) \<le> 10000
   \<and> (10000::real) < 2 powr 1024
   \<and> (\<exists>s t low cap. calculateSlippage ''USDC'' ''xGOLD'' 10000 = Some s
          \<and> f64 0.001 = Some low \<and> f64 0.05 = Some cap \<and> low \<le> s \<and> s \<le> cap
          \<and> calculateSlippageTolerance ''USDC'' ''xGOLD'' 10000 = Some t
          \<and> f64 (s * 1.5) = Some t
          \<and> 0.0015 \<le> t \<and> t \<le> 5404319552844596 / 2 ^ 56)"
proof -
  have k1: "ordinaryKey ''USDC''" and k2: "ordinaryKey ''xGOLD''"
    by (simp_all add: ordinaryKey_def objectPrototypeKeys_def)
  have a: "(0::real) \<le> 10000" by simp
  have "(10000::real) \<le> 2 powr 14" by simp
  also have "\<dots> < 2 powr 1024" by (intro powr_less_mono) simp_all
  finally have b: "(10000::real) < 2 powr 1024" .
  show ?thesis
    using k1 k2 a b slippageTolerance_binary64 [OF k1 k2 a b] by blast
qed

section \<open>Pricing model\<close>

text \<open>
  C2, as stated, fails: in scenario A (the pool \<open>susd\<close> has a TVL of 100,000,000 and a swap
  fee of 0.0004, and the amount is 1,000,000) the returned \<open>priceImpact\<close> is 5, not the
  fraction 0.05, because \<open>calculatePriceImpact\<close> returns the capped fraction multiplied by
  100.
\<close>

theorem scenarioA_priceImpact_not_fraction:
  "tvl (getPoolInfo ''susd'') = 100000000
   \<and> swapFee (fees (getPoolInfo ''susd'')) = 0.0004
   \<and> calculatePriceImpact ''susd'' 0 1 1000000
       = Inr \<lparr>priceImpact = 5, expectedOutput = 949600, fee = 400\<rparr>
   \<and> (5 :: real) \<noteq> 0.05"
  by (simp add: calculatePriceImpact_def getPoolInfo_susd)

text \<open>
  C2, amended. For a pool with a TVL of 100,000,000 and a swap fee of 0.0004 and an amount
  of 1,000,000, \<open>calculatePriceImpact\<close> returns \<open>priceImpact\<close> = 5, which is the capped
  fraction 0.05 as a percentage, \<open>expectedOutput\<close> = 949,600 and \<open>fee\<close> = 400.
\<close>

theorem scenarioA_priceImpact_percentage:
  assumes "tvl (getPoolInfo p) = 100000000"
    and "swapFee (fees (getPoolInfo p)) = 0.0004"
  shows "calculatePriceImpact p i j 1000000
           = Inr \<lparr>priceImpact = 100 * 0.05, expectedOutput = 949600, fee = 400\<rparr>"
  unfolding calculatePriceImpact_def Let_def assms by simp

theorem scenarioA_priceImpact_percentage_witness:
  "tvl (getPoolInfo ''susd'') = 100000000
   \<and> swapFee (fees (getPoolInfo ''susd'')) = 0.0004
   \<and> calculatePriceImpact ''susd'' 0 1 1000000
       = Inr \<lparr>priceImpact = 100 * 0.05, expectedOutput = 949600, fee = 400\<rparr>"
  using scenarioA_priceImpact_percentage [of "''susd''" 0 1] by (simp add: getPoolInfo_susd)

text \<open>
  C5, as stated, fails: \<open>calculatePriceImpact\<close> returns a result for the amount -5, and for
  the token indices 7 and 9 in the pool \<open>susd\<close>, which has three tokens.
\<close>

theorem calculatePriceImpact_accepts_invalid:
  "calculatePriceImpact ''susd'' 0 1 (- 5)
     = Inr \<lparr>priceImpact = - 0.00025, expectedOutput = - 4.9980125, fee = - 0.002\<rparr>
   \<and> length (tokens (getPoolInfo ''susd'')) = 3
   \<and> calculatePriceImpact ''susd'' 7 9 100
     = Inr \<lparr>priceImpact = 0.005, expectedOutput = 99.955, fee = 0.04\<rparr>"
  by (simp add: calculatePriceImpact_def getPoolInfo_susd)

text \<open>
  C5, amended. \<open>calculatePriceImpact\<close> validates neither the amount nor the token indices:
  for every pool address, every pair of indices and every amount it returns a result and
  never an error, and the result does not depend on the indices.
\<close>

theorem calculatePriceImpact_total:
  "\<not> isl (calculatePriceImpact p i j a)
   \<and> calculatePriceImpact p i j a = calculatePriceImpact p i' j' a"
  by (simp add: calculatePriceImpact_def Let_def)

text \<open>
  C7. For a fixed pool, the price impact returned by \<open>calculatePriceImpact\<close> does not
  decrease when the amount grows: for \<open>0 < a1 \<le> a2\<close> both calls return, and the impact of
  \<open>a1\<close> is at most the impact of \<open>a2\<close>.
\<close>

theorem priceImpact_monotone:
  assumes "0 < a1" and "a1 \<le> a2"
  shows "\<exists>r1 r2. calculatePriceImpact p i j a1 = Inr r1
           \<and> calculatePriceImpact p i j a2 = Inr r2
           \<and> priceImpact r1 \<le> priceImpact r2"
proof -
  have pos: "0 < tvl (getPoolInfo p)" by (rule getPoolInfo_tvl_pos)
  define x1 where "x1 = a1 / (tvl (getPoolInfo p) * 0.01) * 0.5"
  define x2 where "x2 = a2 / (tvl (getPoolInfo p) * 0.01) * 0.5"
  have "x1 \<le> x2"
    unfolding x1_def x2_def using assms(2) pos by (simp add: divide_right_mono)
  then have "min x1 0.05 * 100 \<le> min x2 0.05 * 100"
    by (simp add: min_def)
  then show ?thesis
    unfolding calculatePriceImpact_def Let_def x1_def x2_def by simp
qed

theorem priceImpact_monotone_witness:
  "(0::real) < 100 \<and> (100::real) \<le> 1000000
   \<and> (\<exists>r1 r2. calculatePriceImpact ''susd'' 0 1 100 = Inr r1
           \<and> calculatePriceImpact ''susd'' 0 1 1000000 = Inr r2
           \<and> priceImpact r1 \<le> priceImpact r2)"
  using priceImpact_monotone [of 100 1000000 "''susd''" 0 1] by simp

section \<open>Route finder\<close>

text \<open>
  C4, as stated, fails: no pool of the registry holds FOO or BAR, so there is neither a
  direct pool nor a pair of pools through USDC, and \<open>findOptimalRoute\<close> still returns a
  route.
\<close>

theorem findOptimalRoute_returns_without_pool:
  "\<not> directRouteExists ''FOO'' ''BAR'' \<and> \<not> usdcRouteExists ''FOO'' ''BAR''
   \<and> findOptimalRoute ''FOO'' ''BAR'' 100
       = Inr \<lparr>route = [''FOO'', ''USDC'', ''BAR''], pools = [''tripool''],
              routeExpectedOutput = 99.95, routePriceImpact = 0.01\<rparr>"
  by (simp add: no_route_FOO_BAR findOptimalRoute_def PRODUCTION_POOLS_def getPoolInfo_susd
      getPoolInfo_tripool getPoolInfo_usds calculatePriceImpact_def)

text \<open>
  C4, amended. For every token pair and every amount, if no registered pool holds both
  tokens, \<open>findOptimalRoute\<close> does not fail: it returns the route from the input token over
  USDC to the output token through the single pool \<open>tripool\<close>, priced by
  \<open>calculatePriceImpact\<close> on that pool (TVL 50,000,000, swap fee 0.0004), whether or not
  \<open>tripool\<close> holds the tokens.
\<close>

theorem findOptimalRoute_fallback:
  assumes "\<not> directRouteExists fromToken toToken"
  shows "findOptimalRoute fromToken toToken amount
           = Inr \<lparr>route = [fromToken, ''USDC'', toToken], pools = [''tripool''],
                  routeExpectedOutput = amount * (1 - min (amount / 500000 * 0.5) 0.05 - 0.0004),
                  routePriceImpact = min (amount / 500000 * 0.5) 0.05 * 100\<rparr>"
proof -
  have "findDirectPool (map fst PRODUCTION_POOLS) fromToken toToken = ''''"
    using assms findDirectPool_none by blast
  then show ?thesis
    by (simp add: findOptimalRoute_def calculatePriceImpact_def getPoolInfo_tripool Let_def)
qed

theorem findOptimalRoute_fallback_witness:
  "\<not> directRouteExists ''FOO'' ''BAR''
   \<and> findOptimalRoute ''FOO'' ''BAR'' 100
       = Inr \<lparr>route = [''FOO'', ''USDC'', ''BAR''], pools = [''tripool''],
              routeExpectedOutput = 100 * (1 - min (100 / 500000 * 0.5) 0.05 - 0.0004),
              routePriceImpact = min (100 / 500000 * 0.5) 0.05 * 100\<rparr>"
proof -
  have h: "\<not> directRouteExists ''FOO'' ''BAR''" by (rule no_route_FOO_BAR(1))
  show ?thesis using h findOptimalRoute_fallback [OF h, of 100] by simp
qed

section \<open>Swap quotes\<close>

text \<open>
  C3, as stated, fails: the same quote request gives two different quotes when
  \<open>Math.random()\<close> returns 0 and when it returns 1/2.
\<close>

theorem getSwapQuote_depends_on_draw:
  "getSwapQuote \<lparr>quotePool = ''susd'', quoteIn = Symbol ''USDC'', quoteOut = Symbol ''USDT'',
                  exactAmountIn = 1000, slippageTolerance = Some 0.01\<rparr> 0
     = Inr \<lparr>expectedAmountOut = 997, minAmountOut = 987.03, quotePriceImpact = 0,
            quoteFee = 3, quoteRoute = [''USDC'', ''USDT'']\<rparr>
   \<and> getSwapQuote \<lparr>quotePool = ''susd'', quoteIn = Symbol ''USDC'', quoteOut = Symbol ''USDT'',
                    exactAmountIn = 1000, slippageTolerance = Some 0.01\<rparr> (1 / 2)
     = Inr \<lparr>expectedAmountOut = 992, minAmountOut = 982.08, quotePriceImpact = 0.5,
            quoteFee = 3, quoteRoute = [''USDC'', ''USDT'']\<rparr>"
  by (simp add: getSwapQuote_def)

text \<open>
  C3, amended. A quote is a function of the request and of the number that
  \<open>Math.random()\<close> returns. Two invocations with the same request return the same fee and
  the same route, whatever the two random numbers are, and they return identical quotes
  (expected output, minimum output, price impact, fee and route) when the two random
  numbers are the same.
\<close>

theorem getSwapQuote_determined_by_draw:
  "\<exists>q1 q2. getSwapQuote params u1 = Inr q1 \<and> getSwapQuote params u2 = Inr q2
     \<and> quoteFee q1 = quoteFee q2 \<and> quoteRoute q1 = quoteRoute q2
     \<and> (u1 = u2 \<longrightarrow> q1 = q2)"
  by (auto simp add: getSwapQuote_def Let_def)

theorem getSwapQuote_determined_by_draw_witness:
  "\<exists>q1 q2.
       getSwapQuote \<lparr>quotePool = ''susd'', quoteIn = Symbol ''USDC'', quoteOut = Symbol ''USDT'',
                      exactAmountIn = 1000, slippageTolerance = Some 0.01\<rparr> (1 / 2) = Inr q1
     \<and> getSwapQuote \<lparr>quotePool = ''susd'', quoteIn = Symbol ''USDC'', quoteOut = Symbol ''USDT'',
                      exactAmountIn = 1000, slippageTolerance = Some 0.01\<rparr> (1 / 2) = Inr q2
     \<and> quoteFee q1 = quoteFee q2 \<and> quoteRoute q1 = quoteRoute q2 \<and> q1 = q2"
  using getSwapQuote_determined_by_draw
    [of "\<lparr>quotePool = ''susd'', quoteIn = Symbol ''USDC'', quoteOut = Symbol ''USDT'',
           exactAmountIn = 1000, slippageTolerance = Some 0.01\<rparr>" "1 / 2" "1 / 2"]
  by blast

section \<open>Liquidity engine\<close>

text \<open>
  C6, as stated, fails for a deposit of three quanta of the subnormal range (1.5e-323) in
  the pool susd: the product with 0.95 rounds back to three quanta, so all of the deposit
  is minted; the product with 1.02 rounds to three quanta and its half, one quantum and a
  half, rounds to two, so the redemption returns two amounts of two quanta each, four
  quanta for three.
\<close>

theorem round_trip_creates_value:
  "addLiquidity64
       \<lparr>addPool = ''susd'', maxAmountsIn = [3 * 2 powr (- 1074)], minLpTokenMintAmount = 0\<rparr> ''a''
     = Inr \<lparr>txHash64 = ''a'', lpTokenAmount64 = Some (Some (3 * 2 powr (- 1074))),
            amountsIn64 = Some [Some (3 * 2 powr (- 1074))], amountsOut64 = None\<rparr>
   \<and> removeLiquidity64
       \<lparr>removePool = ''susd'', lpTokenRedeemAmount = 3 * 2 powr (- 1074)\<rparr> ''b''
     = Inr \<lparr>txHash64 = ''b'', lpTokenAmount64 = None, amountsIn64 = None,
            amountsOut64 = Some [Some (2 * 2 powr (- 1074)), Some (2 * 2 powr (- 1074))]\<rparr>
   \<and> sum_list [3 * 2 powr (- 1074)] < sum_list [2 * 2 powr (- 1074), 2 * 2 powr (- 1074 :: real)]"
proof -
  define q :: real where "q = 2 powr (- 1074)"
  have q_pos: "0 < q" by (simp add: q_def)
  obtain c95 where c95: "f64 0.95 = Some c95" and "9 / 10 \<le> c95" and "c95 \<le> 11 / 10"
    using f64_constant [of "0.95"] by auto
  then have mint: "fl_mul (Some (3 * q)) (f64 0.95) = Some (3 * q)"
    unfolding q_def by (rule three_quanta)
  obtain c99 where c99: "f64 0.99 = Some c99" and "9 / 10 \<le> c99" and "c99 \<le> 11 / 10"
    using f64_constant [of "0.99"] by auto
  then have used: "fl_mul (Some (3 * q)) (f64 0.99) = Some (3 * q)"
    unfolding q_def by (rule three_quanta)
  obtain c102 where c102: "f64 1.02 = Some c102" and "9 / 10 \<le> c102" and "c102 \<le> 11 / 10"
    using f64_constant [of "1.02"] by auto
  then have grown: "fl_mul (Some (3 * q)) (f64 1.02) = Some (3 * q)"
    unfolding q_def by (rule three_quanta)
  have "\<bar>3 :: real\<bar> < 2 powr 52" using pow2_52_large by linarith
  then have "f64 (3 * q) = Some (of_int (round_even 3) * q)"
    unfolding q_def by (rule f64_subnormal)
  moreover have "round_even 3 = 3" using round_even_3 [of 3] by simp
  ultimately have start: "fl_add (Some 0) (Some (3 * q)) = Some (3 * q)"
    by (simp add: fl_add_def)
  have "\<bar>3 / 2 :: real\<bar> < 2 powr 52" using pow2_52_large by linarith
  then have "f64 (3 / 2 * q) = Some (of_int (round_even (3 / 2)) * q)"
    unfolding q_def by (rule f64_subnormal)
  then have half: "fl_div (Some (3 * q)) (real (2::nat)) = Some (2 * q)"
    by (simp add: fl_div_def round_even_half)
  have count: "(if map_option fst (poolKey ''susd'') = Some ''tripool'' then 3 else 2 :: nat) = 2"
    by (simp add: poolKey_def PRODUCTION_POOLS_def)
  have pool: "map_option fst (poolKey ''susd'') = Some ''susd''"
    by (simp add: poolKey_def PRODUCTION_POOLS_def)
  have add: "addLiquidity64
       \<lparr>addPool = ''susd'', maxAmountsIn = [3 * q], minLpTokenMintAmount = 0\<rparr> ''a''
     = Inr \<lparr>txHash64 = ''a'', lpTokenAmount64 = Some (Some (3 * q)),
            amountsIn64 = Some [Some (3 * q)], amountsOut64 = None\<rparr>"
    unfolding addLiquidity64_def Let_def
    by (simp only: AddLiquidityParams.simps foldl_Cons foldl_Nil list.map start mint used)
  have rem: "removeLiquidity64 \<lparr>removePool = ''susd'', lpTokenRedeemAmount = 3 * q\<rparr> ''b''
     = Inr \<lparr>txHash64 = ''b'', lpTokenAmount64 = None, amountsIn64 = None,
            amountsOut64 = Some [Some (2 * q), Some (2 * q)]\<rparr>"
    unfolding removeLiquidity64_def Let_def
    by (simp only: RemoveLiquidityParams.simps count grown half) (simp add: numeral_2_eq_2)
  have more: "sum_list [3 * q] < sum_list [2 * q, 2 * q]"
    using q_pos by simp
  show ?thesis
    using add rem more unfolding q_def by blast
qed

text \<open>
  C6, amended. For every vector of at most \<open>2\<^sup>3\<^sup>2\<close> non-negative amounts whose sum lies between
  \<open>2\<^sup>-\<^sup>1\<^sup>0\<^sup>2\<^sup>2\<close> and \<open>2\<^sup>1\<^sup>0\<^sup>2\<^sup>2\<close>, adding liquidity mints a finite LP amount, and redeeming
  all of it in the same pool returns finite amounts whose sum is at most the sum of the
  amounts offered, with every operation rounded to binary64.
\<close>

theorem liquidity_round_trip_binary64:
  assumes nonneg: "\<forall>x \<in> set amounts. 0 \<le> x"
    and count: "length amounts \<le> 2 ^ 32"
    and lower: "2 powr (- 1022) \<le> sum_list amounts"
    and upper: "sum_list amounts \<le> 2 powr 1022"
  shows "\<exists>added lp removed outs.
           addLiquidity64 \<lparr>addPool = p, maxAmountsIn = amounts, minLpTokenMintAmount = m\<rparr> h1
             = Inr added
         \<and> lpTokenAmount64 added = Some (Some lp)
         \<and> removeLiquidity64 \<lparr>removePool = p, lpTokenRedeemAmount = lp\<rparr> h2 = Inr removed
         \<and> amountsOut64 removed = Some (map Some outs)
         \<and> sum_list outs \<le> sum_list amounts"
proof -
  define S where "S = sum_list amounts"
  define n where "n = length amounts"
  define h :: real where "h = 2 powr (- 1075)"
  define k :: nat where
    "k = (if map_option fst (poolKey p) = Some ''tripool'' then 3 else 2)"
  have S_pos: "0 \<le> S"
    using lower powr_ge_zero [of 2 "- 1022"] unfolding S_def by linarith
  have top: "2 * 2 powr 1022 = (2::real) powr 1023"
    using powr_add [of "2::real" 1 1022] by simp
  have S_top: "S \<le> 2 powr 1022" using upper by (simp add: S_def)
  have range: "x \<le> S \<Longrightarrow> x \<le> 2 powr 1023" for x
    using S_top S_pos top by linarith
  have h_pos: "0 \<le> h" by (simp add: h_def)
  have h_le: "h \<le> S / 10000"
    using eta_length [of 1 S] lower by (simp add: h_def S_def)
  have nh_le: "real n * h \<le> S / 10000"
    using eta_length [of n S] count lower by (simp add: h_def S_def n_def)
  have growth: "(1 + 2 powr (- 53)) ^ n \<le> (10001 / 10000 :: real)"
    using count unfolding n_def by (rule growth_length)
  have growth_pos: "(0::real) \<le> (1 + 2 powr (- 53)) ^ n" by simp
  \<comment> \<open>the sum of the amounts\<close>
  have "(S + real n * h) * (1 + 2 powr (- 53)) ^ n \<le> (10001 / 10000 * S) * (10001 / 10000)"
    using nh_le growth growth_pos S_pos h_pos by (intro mult_mono) simp_all
  also have "\<dots> \<le> 1001 / 1000 * S" using S_pos by simp
  finally have sum_le: "(S + real n * h) * (1 + 2 powr (- 53)) ^ n \<le> 1001 / 1000 * S" .
  have "1001 / 1000 * S \<le> 2 * 2 powr 1022" using S_top S_pos by linarith
  then have "(0 + sum_list amounts + real (length amounts) * 2 powr (- 1075))
               * (1 + 2 powr (- 53)) ^ length amounts \<le> 2 powr 1023"
    using sum_le top by (simp add: S_def n_def h_def)
  then obtain T where
    T: "foldl (\<lambda>sum amount. fl_add sum (Some amount)) (Some 0) amounts = Some T"
    and T_pos: "0 \<le> T"
    and "T \<le> (0 + sum_list amounts + real (length amounts) * 2 powr (- 1075))
                 * (1 + 2 powr (- 53)) ^ length amounts"
    using float_sum_bound [of 0 amounts] nonneg by auto
  then have T_le: "T \<le> 1001 / 1000 * S"
    using sum_le by (simp add: S_def n_def h_def)
  \<comment> \<open>the minted LP amount\<close>
  obtain c95 where c95: "f64 0.95 = Some c95" and c95_pos: "0 \<le> c95"
    and c95_le: "c95 \<le> 9503 / 10000"
    using f64_constant [of "0.95"] by auto
  have "T * c95 \<le> (1001 / 1000 * S) * (9503 / 10000)"
    using T_le c95_le T_pos c95_pos by (intro mult_mono) simp_all
  then have x1_le: "T * c95 \<le> 9513 / 10000 * S" using S_pos by simp
  have x1_pos: "0 \<le> T * c95" using T_pos c95_pos by simp
  have "T * c95 \<le> 2 powr 1023" using x1_le S_pos by (intro range) simp
  then obtain lp where lp: "f64 (T * c95) = Some lp" and lp_pos: "0 \<le> lp"
    and "lp \<le> 10001 / 10000 * (T * c95) + h"
    using f64_scaled [OF x1_pos] unfolding h_def by blast
  then have lp_le: "lp \<le> 9516 / 10000 * S"
    using x1_le h_le by simp
  have mint: "fl_mul (foldl (\<lambda>sum amount. fl_add sum (Some amount)) (Some 0) amounts) (f64 0.95)
                = Some lp"
    unfolding T c95 fl_mul_def using lp by simp
  \<comment> \<open>the value of the LP amount\<close>
  obtain c102 where c102: "f64 1.02 = Some c102" and c102_pos: "0 \<le> c102"
    and c102_le: "c102 \<le> 10203 / 10000"
    using f64_constant [of "1.02"] by auto
  have "lp * c102 \<le> (9516 / 10000 * S) * (10203 / 10000)"
    using lp_le c102_le lp_pos c102_pos by (intro mult_mono) simp_all
  then have x2_le: "lp * c102 \<le> 971 / 1000 * S" using S_pos by simp
  have x2_pos: "0 \<le> lp * c102" using lp_pos c102_pos by simp
  have "lp * c102 \<le> 2 powr 1023" using x2_le S_pos by (intro range) simp
  then obtain lpv where lpv: "f64 (lp * c102) = Some lpv" and lpv_pos: "0 \<le> lpv"
    and "lpv \<le> 10001 / 10000 * (lp * c102) + h"
    using f64_scaled [OF x2_pos] unfolding h_def by blast
  then have lpv_le: "lpv \<le> 9712 / 10000 * S"
    using x2_le h_le by simp
  have grown: "fl_mul (Some lp) (f64 1.02) = Some lpv"
    unfolding c102 fl_mul_def using lpv by simp
  \<comment> \<open>the amount per token\<close>
  have k_low: "2 \<le> real k" and k_high: "real k \<le> 3" by (simp_all add: k_def)
  have x3_pos: "0 \<le> lpv / real k" using lpv_pos k_low by simp
  have "lpv / real k \<le> lpv / 1"
    using lpv_pos k_low by (intro divide_left_mono) simp_all
  then have x3_le: "lpv / real k \<le> lpv" by simp
  then have "lpv / real k \<le> 2 powr 1023" using lpv_le S_pos by (intro range) simp
  then obtain per where per: "f64 (lpv / real k) = Some per" and per_pos: "0 \<le> per"
    and per_le: "per \<le> 10001 / 10000 * (lpv / real k) + h"
    using f64_scaled [OF x3_pos] unfolding h_def by blast
  have "real k * per \<le> real k * (10001 / 10000 * (lpv / real k) + h)"
    using per_le k_low by (intro mult_left_mono) simp_all
  also have "\<dots> = 10001 / 10000 * lpv + real k * h"
    using k_low by (simp add: algebra_simps)
  also have "\<dots> \<le> 10001 / 10000 * lpv + 3 * h"
    using k_high h_pos by (simp add: mult_right_mono)
  also have "\<dots> \<le> S"
    using lpv_le h_le S_pos by simp
  finally have total: "real k * per \<le> S" .
  have share: "fl_div (Some lpv) (real k) = Some per"
    using per k_low by (simp add: fl_div_def)
  \<comment> \<open>the two calls\<close>
  have add: "\<exists>added. addLiquidity64
        \<lparr>addPool = p, maxAmountsIn = amounts, minLpTokenMintAmount = m\<rparr> h1 = Inr added
      \<and> lpTokenAmount64 added = Some (Some lp)"
    unfolding addLiquidity64_def Let_def AddLiquidityParams.simps mint by simp
  have rem: "removeLiquidity64 \<lparr>removePool = p, lpTokenRedeemAmount = lp\<rparr> h2
      = Inr \<lparr>txHash64 = h2, lpTokenAmount64 = None, amountsIn64 = None,
             amountsOut64 = Some (map Some (replicate k per))\<rparr>"
    unfolding removeLiquidity64_def Let_def RemoveLiquidityParams.simps k_def [symmetric]
      grown share by simp
  define removed where
    "removed = \<lparr>txHash64 = h2, lpTokenAmount64 = None, amountsIn64 = None,
                 amountsOut64 = Some (map Some (replicate k per))\<rparr>"
  have out: "amountsOut64 removed = Some (map Some (replicate k per))"
    by (simp add: removed_def)
  have le: "sum_list (replicate k per) \<le> sum_list amounts"
    using total by (simp add: sum_list_replicate S_def)
  obtain added where
    "addLiquidity64 \<lparr>addPool = p, maxAmountsIn = amounts, minLpTokenMintAmount = m\<rparr> h1
       = Inr added"
    and "lpTokenAmount64 added = Some (Some lp)"
    using add by blast
  then show ?thesis
    using rem out le unfolding removed_def [symmetric] by blast
qed

theorem liquidity_round_trip_binary64_witness:
  "(0::real) \<le> 100 \<and> (0::real) \<le> 200 \<and> length [100, 200 :: real] \<le> 2 ^ 32
   \<and> 2 powr (- 1022) \<le> sum_list [100, 200 :: real]
   \<and> sum_list [100, 200 :: real] \<le> 2 powr 1022
   \<and> (\<exists>added lp removed outs.
           addLiquidity64
             \<lparr>addPool = ''tripool'', maxAmountsIn = [100, 200], minLpTokenMintAmount = 0\<rparr> ''a''
             = Inr added
         \<and> lpTokenAmount64 added = Some (Some lp)
         \<and> removeLiquidity64 \<lparr>removePool = ''tripool'', lpTokenRedeemAmount = lp\<rparr> ''b''
             = Inr removed
         \<and> amountsOut64 removed = Some (map Some outs)
         \<and> sum_list outs \<le> sum_list [100, 200])"
proof -
  have nonneg: "\<forall>x \<in> set [100, 200 :: real]. 0 \<le> x" by simp
  have count: "length [100, 200 :: real] \<le> 2 ^ 32" by simp
  have "(2::real) powr (- 1022) \<le> 2 powr 0" by (intro powr_mono) simp_all
  then have lower: "2 powr (- 1022) \<le> sum_list [100, 200 :: real]" by simp
  have "(300::real) \<le> 2 powr 9" by simp
  also have "\<dots> \<le> 2 powr 1022" by (intro powr_mono) simp_all
  finally have upper: "sum_list [100, 200 :: real] \<le> 2 powr 1022" by simp
  have v1: "(0::real) \<le> 100" and v2: "(0::real) \<le> 200" by simp_all
  show ?thesis
    using v1 v2 count lower upper
      liquidity_round_trip_binary64 [OF nonneg count lower upper,
        where p = "''tripool''" and m = 0 and ?h1.0 = "''a''" and ?h2.0 = "''b''"]
    by blast
qed



end
